theory Spec2Isabelle
  imports Complex_Main "HOL-Library.Log_Nat"
begin

section \<open>tilesight hardware abstraction: compute units and architectures\<close>

text \<open>
  A shallow embedding of \<^verbatim>\<open>tilelang/tools/tilesight/arch/base_arch.py\<close>, of the three
  device classes \<^verbatim>\<open>H100_PCIE\<close>, \<^verbatim>\<open>H100_SXM\<close> and \<^verbatim>\<open>MI250X\<close>, and of
  \<^verbatim>\<open>utils/device_factory.py\<close>.

  Conventions of the embedding:
  \<^item> a Python \<^verbatim>\<open>int\<close> is an \<open>int\<close>; in the model of the classes a Python
    \<^verbatim>\<open>float\<close> is a \<open>real\<close> and the arithmetic is exact, which is what the code
    computes on the numbers of the device tables; \<^verbatim>\<open>calculate_flops\<close> and
    \<^verbatim>\<open>compute_bandwidth\<close> are modelled a second time on IEEE doubles, with rounding,
    infinities, \<^verbatim>\<open>nan\<close> and \<^verbatim>\<open>OverflowError\<close>, for the properties that range
    over arbitrary arguments;
  \<^item> an object is a record, a method takes the object and returns the updated object;
  \<^item> an attribute that \<^verbatim>\<open>Arch.__init__\<close> does not create is an \<open>option\<close> field,
    \<open>None\<close> while the attribute does not exist; reading it then raises
    \<^verbatim>\<open>AttributeError\<close>;
  \<^item> an attribute that holds \<^verbatim>\<open>None\<close> or an object is an \<open>option\<close> field as well;
  \<^item> a raised exception is the left summand of the result.
\<close>

subsection \<open>ComputeUnit\<close>

record ComputeUnit =
  unit_type :: string
  dtype :: string
  instances :: int
  shape :: "int list"
  ops_per_element :: int

text \<open>
  \<^verbatim>\<open>calculate_flops\<close>: the early return for a non-positive argument, then
  \<^verbatim>\<open>math.prod(self.shape) if self.shape else 1\<close>, the integer product
  \<^verbatim>\<open>instances * shape_product * ops_per_element\<close>, and
  \<^verbatim>\<open>ops_per_sm_per_cycle * sm_count * freq_hz\<close>, associated to the left.
\<close>

definition calculate_flops :: "ComputeUnit \<Rightarrow> int \<Rightarrow> real \<Rightarrow> real" where
  "calculate_flops u sm_count_arg freq_hz =
     (if sm_count_arg \<le> 0 \<or> freq_hz \<le> 0 then 0
      else
        let shape_product = (if shape u = [] then 1 else prod_list (shape u));
            ops_per_sm_per_cycle = instances u * shape_product * ops_per_element u
        in real_of_int (ops_per_sm_per_cycle * sm_count_arg) * freq_hz)"

subsection \<open>Arch\<close>

text \<open>
  The first block of fields is what \<^verbatim>\<open>Arch.__init__\<close> creates. The second block
  holds the attributes that only a subclass or \<^verbatim>\<open>compute_flops\<close> creates
  (the source tests the unit slots among them with \<^verbatim>\<open>hasattr\<close>).

  The record takes the type of the float-valued attributes as a parameter: \<open>Arch\<close> is
  the object with these attributes as reals, which the model of the classes uses.
\<close>

record 'f Arch_obj =
  core :: "string option"
  sm_count :: int
  freq :: 'f
  ddr_bandwidth :: 'f
  ddr_capacity :: int
  l2_bandwidth :: 'f
  l2_capacity :: int
  l2_partitions :: int
  sm_sub_partitions :: int
  l1_smem_throughput_per_cycle :: int
  configurable_smem_capacity :: int
  register_capacity_per_sm :: int
  fp16_tensor_core_unit :: "ComputeUnit option"
  fp32_cuda_core_unit :: "ComputeUnit option"
  sfu_unit :: "ComputeUnit option"
  fp16_tensor_flops :: 'f
  fp32_cuda_core_flops :: 'f
  sfu_flops :: 'f
  smem_bandwidth :: 'f
  register_bandwidth :: 'f
  ddr_max_util :: 'f
  l2_max_util :: 'f
  l1_max_util :: 'f
  compute_max_util :: 'f
  fp8_tensor_core_unit :: "ComputeUnit option"
  fp4_tensor_core_unit :: "ComputeUnit option"
  fp16_cuda_core_unit :: "ComputeUnit option"
  fp64_cuda_core_unit :: "ComputeUnit option"
  int32_cuda_core_unit :: "ComputeUnit option"
  fp8_tensor_flops :: "'f option"
  fp4_tensor_flops :: "'f option"
  fp16_cuda_core_flops :: "'f option"
  fp64_cuda_core_flops :: "'f option"
  int32_cuda_core_flops :: "'f option"
  warp_schedulers_per_sm :: "int option"
  base_freq :: "'f option"
  max_freq :: "'f option"
  int8_flops :: "'f option"

type_synonym Arch = "real Arch_obj"

text \<open>\<^verbatim>\<open>Arch.__init__\<close>: the object before any subclass has configured it.\<close>

definition Arch_init :: Arch where
  "Arch_init =
     \<lparr> core = None, sm_count = 0, freq = 0,
       ddr_bandwidth = 0, ddr_capacity = 0, l2_bandwidth = 0, l2_capacity = 0,
       l2_partitions = 1,
       sm_sub_partitions = 0, l1_smem_throughput_per_cycle = 0,
       configurable_smem_capacity = 0, register_capacity_per_sm = 0,
       fp16_tensor_core_unit = None, fp32_cuda_core_unit = None, sfu_unit = None,
       fp16_tensor_flops = 0, fp32_cuda_core_flops = 0, sfu_flops = 0,
       smem_bandwidth = 0, register_bandwidth = 0,
       ddr_max_util = 0.9, l2_max_util = 0.9, l1_max_util = 0.9, compute_max_util = 0.9,
       fp8_tensor_core_unit = None, fp4_tensor_core_unit = None,
       fp16_cuda_core_unit = None, fp64_cuda_core_unit = None, int32_cuda_core_unit = None,
       fp8_tensor_flops = None, fp4_tensor_flops = None, fp16_cuda_core_flops = None,
       fp64_cuda_core_flops = None, int32_cuda_core_flops = None,
       warp_schedulers_per_sm = None, base_freq = None, max_freq = None,
       int8_flops = None \<rparr>"

text \<open>
  The conditional that \<^verbatim>\<open>compute_flops\<close> writes once per slot:
  \<^verbatim>\<open>if self.X_unit and self.sm_count > 0 and self.freq > 0: ... else: 0.0\<close>.
  A \<^verbatim>\<open>ComputeUnit\<close> object is always truthy, so the first conjunct tests that the
  slot exists and is not \<^verbatim>\<open>None\<close>.
\<close>

definition slot_flops :: "ComputeUnit option \<Rightarrow> int \<Rightarrow> real \<Rightarrow> real" where
  "slot_flops slot n f =
     (case slot of
        Some u \<Rightarrow> if n > 0 \<and> f > 0 then calculate_flops u n f else 0
      | None \<Rightarrow> 0)"

definition compute_flops :: "Arch \<Rightarrow> Arch" where
  "compute_flops s =
     s\<lparr> fp16_tensor_flops := slot_flops (fp16_tensor_core_unit s) (sm_count s) (freq s),
        fp8_tensor_flops := Some (slot_flops (fp8_tensor_core_unit s) (sm_count s) (freq s)),
        fp4_tensor_flops := Some (slot_flops (fp4_tensor_core_unit s) (sm_count s) (freq s)),
        fp32_cuda_core_flops := slot_flops (fp32_cuda_core_unit s) (sm_count s) (freq s),
        fp16_cuda_core_flops :=
          Some (slot_flops (fp16_cuda_core_unit s) (sm_count s) (freq s)),
        fp64_cuda_core_flops :=
          Some (slot_flops (fp64_cuda_core_unit s) (sm_count s) (freq s)),
        int32_cuda_core_flops :=
          Some (slot_flops (int32_cuda_core_unit s) (sm_count s) (freq s)),
        sfu_flops := slot_flops (sfu_unit s) (sm_count s) (freq s) \<rparr>"

definition compute_bandwidth :: "Arch \<Rightarrow> Arch" where
  "compute_bandwidth s =
     s\<lparr> smem_bandwidth :=
          (if sm_count s > 0 \<and> freq s > 0 \<and> l1_smem_throughput_per_cycle s > 0
           then real_of_int (sm_count s) * freq s
                  * real_of_int (l1_smem_throughput_per_cycle s)
           else 0),
        register_bandwidth :=
          (if sm_count s > 0 \<and> freq s > 0 \<and> sm_sub_partitions s > 0
           then real_of_int (sm_count s) * freq s * real_of_int (sm_sub_partitions s)
                  * 32 * 4
           else 0) \<rparr>"

definition compute_metrics :: "Arch \<Rightarrow> Arch" where
  "compute_metrics s = compute_bandwidth (compute_flops s)"

text \<open>
  The exceptions that the modelled code raises: \<^verbatim>\<open>AttributeError\<close> with the name of
  the attribute that is missing, \<^verbatim>\<open>ValueError\<close> and \<^verbatim>\<open>OverflowError\<close> with their
  messages.
\<close>

datatype error = AttributeError string | ValueError string | OverflowError string

subsection \<open>H100_PCIE\<close>

text \<open>
  \<^verbatim>\<open>H100_PCIE.set_to_spec\<close>, statement by statement, in three parts. Line 58 of the
  source is \<^verbatim>\<open>self.freq = self.max_freq\<close>, and neither \<^verbatim>\<open>Arch.__init__\<close> nor any
  statement before that line assigns \<^verbatim>\<open>max_freq\<close>: the read raises
  \<^verbatim>\<open>AttributeError\<close> unless an earlier \<^verbatim>\<open>set_to_microbench\<close> or
  \<^verbatim>\<open>set_to_ncu\<close> has created the attribute.
  \<^item> \<open>H100_PCIE_spec_before_read\<close>: the assignments of lines 20 to 57;
  \<^item> \<open>H100_PCIE_spec_after_read f\<close>: the assignments of lines 58 to 115, \<open>f\<close> being
    the value read from \<^verbatim>\<open>max_freq\<close>;
  \<^item> \<open>H100_PCIE_set_to_spec\<close>: the whole method, with the call of
    \<^verbatim>\<open>compute_metrics\<close> and the assignment of \<^verbatim>\<open>int8_flops\<close> that end it.
\<close>

definition H100_PCIE_spec_before_read :: "Arch \<Rightarrow> Arch" where
  "H100_PCIE_spec_before_read s =
     s\<lparr> core := Some ''H100_PCIE'', sm_count := 114, freq := 1.755 * 10 ^ 9,
        ddr_bandwidth := 2039 * 10 ^ 9, ddr_capacity := 80 * 1024 ^ 3,
        l2_bandwidth := 7598.47 * 10 ^ 9, l2_capacity := 50 * 1024 ^ 2,
        l2_partitions := 2,
        sm_sub_partitions := 4, l1_smem_throughput_per_cycle := 128,
        configurable_smem_capacity := 228 * 1024 ^ 1,
        register_capacity_per_sm := 256 * 1024 ^ 1,
        warp_schedulers_per_sm := Some 4,
        fp16_tensor_core_unit := None, fp32_cuda_core_unit := None, sfu_unit := None,
        fp16_tensor_flops := 0, fp32_cuda_core_flops := 0, sfu_flops := 0,
        smem_bandwidth := 0, register_bandwidth := 0,
        ddr_max_util := 0.9, l2_max_util := 0.9, l1_max_util := 0.9,
        compute_max_util := 0.9,
        core := Some ''H100_PCIE'', sm_count := 114,
        base_freq := Some (1.42 * 10 ^ 9) \<rparr>"

definition H100_PCIE_spec_after_read :: "real \<Rightarrow> Arch \<Rightarrow> Arch" where
  "H100_PCIE_spec_after_read f s =
     s\<lparr> freq := f,
        fp16_tensor_core_unit := Some
          \<lparr> unit_type = ''tensor'', dtype = ''fp16'', instances = 4,
            shape = [8, 4, 16], ops_per_element = 2 \<rparr>,
        fp8_tensor_core_unit := Some
          \<lparr> unit_type = ''tensor'', dtype = ''fp8'', instances = 4,
            shape = [8, 4, 16], ops_per_element = 2 \<rparr>,
        fp32_cuda_core_unit := Some
          \<lparr> unit_type = ''vector'', dtype = ''fp32'', instances = 128,
            shape = [], ops_per_element = 2 \<rparr>,
        int32_cuda_core_unit := Some
          \<lparr> unit_type = ''vector'', dtype = ''int32'', instances = 64,
            shape = [], ops_per_element = 2 \<rparr>,
        fp16_cuda_core_unit := Some
          \<lparr> unit_type = ''vector'', dtype = ''fp16'', instances = 128,
            shape = [], ops_per_element = 2 \<rparr>,
        fp64_cuda_core_unit := Some
          \<lparr> unit_type = ''vector'', dtype = ''fp64'', instances = 64,
            shape = [], ops_per_element = 2 \<rparr>,
        sfu_unit := Some
          \<lparr> unit_type = ''sfu'', dtype = ''fp32'', instances = 16,
            shape = [], ops_per_element = 2 \<rparr>,
        ddr_max_util := 0.9, l2_max_util := 0.9, l1_max_util := 0.9,
        compute_max_util := 0.9 \<rparr>"

definition H100_PCIE_set_to_spec :: "Arch \<Rightarrow> error + Arch" where
  "H100_PCIE_set_to_spec s =
     (let before_read = H100_PCIE_spec_before_read s
      in case max_freq before_read of
           None \<Rightarrow> Inl (AttributeError ''max_freq'')
         | Some f \<Rightarrow>
             let computed = compute_metrics (H100_PCIE_spec_after_read f before_read)
             in Inr (computed\<lparr> int8_flops := Some (fp16_tensor_flops computed * 2) \<rparr>))"

definition H100_PCIE_set_to_microbench :: "Arch \<Rightarrow> Arch" where
  "H100_PCIE_set_to_microbench s =
     (let computed = compute_metrics
            (s\<lparr> base_freq := Some (1.42 * 10 ^ 9), max_freq := Some (1.42 * 10 ^ 9),
                freq := 1.42 * 10 ^ 9,
                ddr_max_util := 1.0, l2_max_util := 1.0, l1_max_util := 1.0,
                compute_max_util := 1.0,
                ddr_bandwidth := 1864.22 * 10 ^ 9, l2_bandwidth := 7598.48 * 10 ^ 9,
                smem_bandwidth := 20720.6 * 10 ^ 9 \<rparr>)
      in computed\<lparr> int8_flops := Some (fp16_tensor_flops computed * 2) \<rparr>)"

definition H100_PCIE_set_to_ncu :: "Arch \<Rightarrow> Arch" where
  "H100_PCIE_set_to_ncu s =
     (let computed = compute_metrics
            (s\<lparr> base_freq := Some (1.06 * 10 ^ 9), max_freq := Some (1.06 * 10 ^ 9),
                freq := 1.06 * 10 ^ 9,
                ddr_max_util := 0.9, l2_max_util := 0.9, l1_max_util := 0.9,
                compute_max_util := 0.9 \<rparr>)
      in computed\<lparr> int8_flops := Some (fp16_tensor_flops computed * 2) \<rparr>)"

text \<open>\<^verbatim>\<open>H100_PCIE.__init__\<close>: \<^verbatim>\<open>super().__init__()\<close>, then \<^verbatim>\<open>self.set_to_spec()\<close>.\<close>

definition H100_PCIE_init :: "error + Arch" where
  "H100_PCIE_init = H100_PCIE_set_to_spec Arch_init"

subsection \<open>H100_SXM\<close>

definition H100_SXM_set_to_spec :: "Arch \<Rightarrow> Arch" where
  "H100_SXM_set_to_spec s =
     compute_metrics
       (s\<lparr> core := Some ''H100_SXM'', sm_count := 132, freq := 1.83 * 10 ^ 9,
           ddr_bandwidth := 3352.32 * 10 ^ 9, ddr_capacity := 90 * 1024 ^ 3,
           l2_bandwidth := 8748 * 10 ^ 9, l2_capacity := 50 * 1024 ^ 2,
           l2_partitions := 2,
           sm_sub_partitions := 4, l1_smem_throughput_per_cycle := 128,
           configurable_smem_capacity := 228 * 1024 ^ 1,
           register_capacity_per_sm := 256 * 1024 ^ 1,
           fp16_tensor_core_unit := Some
             \<lparr> unit_type = ''tensor'', dtype = ''fp16'', instances = 4,
               shape = [8, 4, 16], ops_per_element = 2 \<rparr>,
           fp8_tensor_core_unit := Some
             \<lparr> unit_type = ''tensor'', dtype = ''fp8'', instances = 4,
               shape = [8, 4, 32], ops_per_element = 2 \<rparr>,
           fp32_cuda_core_unit := Some
             \<lparr> unit_type = ''vector'', dtype = ''fp32'', instances = 128,
               shape = [1], ops_per_element = 2 \<rparr>,
           fp16_cuda_core_unit := Some
             \<lparr> unit_type = ''vector'', dtype = ''fp16'', instances = 128,
               shape = [1], ops_per_element = 2 \<rparr>,
           fp64_cuda_core_unit := Some
             \<lparr> unit_type = ''vector'', dtype = ''fp64'', instances = 64,
               shape = [1], ops_per_element = 2 \<rparr>,
           sfu_unit := Some
             \<lparr> unit_type = ''vector'', dtype = ''fp32'', instances = 16,
               shape = [1], ops_per_element = 2 \<rparr>,
           ddr_max_util := 0.9, l2_max_util := 0.9, l1_max_util := 0.9,
           compute_max_util := 0.9 \<rparr>)"

text \<open>The body of \<^verbatim>\<open>H100_SXM.set_to_microbench\<close> is a comment and \<^verbatim>\<open>return self\<close>.\<close>

definition H100_SXM_set_to_microbench :: "Arch \<Rightarrow> Arch" where
  "H100_SXM_set_to_microbench s = s"

definition H100_SXM_set_to_ncu :: "Arch \<Rightarrow> Arch" where
  "H100_SXM_set_to_ncu s =
     compute_metrics
       (s\<lparr> freq := 1.44 * 10 ^ 9,
           ddr_max_util := 0.9, l2_max_util := 0.9, l1_max_util := 0.9,
           compute_max_util := 0.9 \<rparr>)"

definition H100_SXM_init :: Arch where
  "H100_SXM_init = H100_SXM_set_to_spec Arch_init"

subsection \<open>MI250X\<close>

definition MI250X_set_to_spec :: "Arch \<Rightarrow> Arch" where
  "MI250X_set_to_spec s =
     compute_metrics
       (s\<lparr> core := Some ''MI250X'', sm_count := 110, freq := 2.1 * 10 ^ 9,
           ddr_bandwidth := 1600 * 10 ^ 9, ddr_capacity := 64 * 1024 ^ 3,
           l2_bandwidth := 3200 * 10 ^ 9, l2_capacity := 8 * 1024 ^ 2,
           l2_partitions := 1,
           sm_sub_partitions := 4, l1_smem_throughput_per_cycle := 128,
           configurable_smem_capacity := 164 * 1024 ^ 1,
           register_capacity_per_sm := 256 * 1024 ^ 1,
           fp16_tensor_core_unit := Some
             \<lparr> unit_type = ''tensor'', dtype = ''fp16'', instances = 4,
               shape = [8, 4, 8], ops_per_element = 2 \<rparr>,
           fp32_cuda_core_unit := Some
             \<lparr> unit_type = ''vector'', dtype = ''fp32'', instances = 64,
               shape = [1], ops_per_element = 2 \<rparr>,
           fp16_cuda_core_unit := Some
             \<lparr> unit_type = ''vector'', dtype = ''fp16'', instances = 64,
               shape = [1], ops_per_element = 2 \<rparr>,
           fp64_cuda_core_unit := Some
             \<lparr> unit_type = ''vector'', dtype = ''fp64'', instances = 32,
               shape = [1], ops_per_element = 2 \<rparr>,
           sfu_unit := Some
             \<lparr> unit_type = ''vector'', dtype = ''fp32'', instances = 16,
               shape = [1], ops_per_element = 2 \<rparr>,
           ddr_max_util := 0.9, l2_max_util := 0.9, l1_max_util := 0.9,
           compute_max_util := 0.9 \<rparr>)"

text \<open>
  \<^verbatim>\<open>MI250X.set_to_microbench\<close> assigns measured numbers to four of the fields that
  \<^verbatim>\<open>compute_metrics\<close> computes, and returns without calling \<^verbatim>\<open>compute_metrics\<close>.
\<close>

definition MI250X_set_to_microbench :: "Arch \<Rightarrow> Arch" where
  "MI250X_set_to_microbench s =
     s\<lparr> freq := 1.36 * 10 ^ 9,
        ddr_max_util := 1.0, l2_max_util := 1.0, l1_max_util := 1.0,
        compute_max_util := 1.0,
        ddr_bandwidth := 1654.81 * 10 ^ 9, l2_bandwidth := 3234.77 * 10 ^ 9,
        smem_bandwidth := 19491 * 10 ^ 9,
        fp32_cuda_core_flops := 19.017181 * 10 ^ 12,
        fp16_cuda_core_flops := Some (19.017181 * 10 ^ 12),
        fp16_tensor_flops := 298.951 * 10 ^ 12 \<rparr>"

definition MI250X_set_to_ncu :: "Arch \<Rightarrow> Arch" where
  "MI250X_set_to_ncu s =
     compute_metrics
       (s\<lparr> freq := 1.06 * 10 ^ 9,
           ddr_max_util := 0.9, l2_max_util := 0.9, l1_max_util := 0.9,
           compute_max_util := 0.9 \<rparr>)"

definition MI250X_init :: Arch where
  "MI250X_init = MI250X_set_to_spec Arch_init"

subsection \<open>Dispatch over the device classes and the three modes\<close>

text \<open>
  The classes whose modules are among the sources. \<open>set_mode\<close> is the method call
  \<^verbatim>\<open>obj.set_to_spec()\<close>, \<^verbatim>\<open>obj.set_to_microbench()\<close> or \<^verbatim>\<open>obj.set_to_ncu()\<close> on an
  object of the class, and \<open>construct\<close> is the call of the class itself.
\<close>

datatype device = H100_PCIE | H100_SXM | MI250X

datatype mode = Spec | Microbench | Ncu

fun set_mode :: "device \<Rightarrow> mode \<Rightarrow> Arch \<Rightarrow> error + Arch" where
  "set_mode H100_PCIE Spec s = H100_PCIE_set_to_spec s"
| "set_mode H100_PCIE Microbench s = Inr (H100_PCIE_set_to_microbench s)"
| "set_mode H100_PCIE Ncu s = Inr (H100_PCIE_set_to_ncu s)"
| "set_mode H100_SXM Spec s = Inr (H100_SXM_set_to_spec s)"
| "set_mode H100_SXM Microbench s = Inr (H100_SXM_set_to_microbench s)"
| "set_mode H100_SXM Ncu s = Inr (H100_SXM_set_to_ncu s)"
| "set_mode MI250X Spec s = Inr (MI250X_set_to_spec s)"
| "set_mode MI250X Microbench s = Inr (MI250X_set_to_microbench s)"
| "set_mode MI250X Ncu s = Inr (MI250X_set_to_ncu s)"

fun construct :: "device \<Rightarrow> error + Arch" where
  "construct H100_PCIE = H100_PCIE_init"
| "construct H100_SXM = Inr H100_SXM_init"
| "construct MI250X = Inr MI250X_init"

text \<open>
  The objects a caller can hold: what a constructor returned, and what a mode method
  returned on such an object.
\<close>

inductive reachable :: "device \<Rightarrow> Arch \<Rightarrow> bool" where
  constructed: "construct d = Inr s \<Longrightarrow> reachable d s"
| configured: "reachable d s \<Longrightarrow> set_mode d m s = Inr s' \<Longrightarrow> reachable d s'"

subsection \<open>The device factory\<close>

text \<open>
  \<^verbatim>\<open>DEVICE_ARCH_MAP\<close> names five classes. The modules of \<^verbatim>\<open>H100_NVL\<close> and
  \<^verbatim>\<open>A100_SXM\<close> are not among the sources, so what calling them returns is a parameter
  of \<open>create_device_arch\<close>.
\<close>

datatype arch_class = Src device | H100_NVL | A100_SXM

definition DEVICE_ARCH_MAP :: "string \<rightharpoonup> arch_class" where
  "DEVICE_ARCH_MAP =
     map_of
       [ (''NVIDIA H100 PCIe'', Src H100_PCIE),
         (''NVIDIA H100 80GB HBM3'', Src H100_SXM),
         (''NVIDIA H100 NVL'', H100_NVL),
         (''NVIDIA A100-SXM4-80GB'', A100_SXM),
         (''AMD INSTINCT MI250X'', Src MI250X) ]"

fun instantiate :: "(arch_class \<Rightarrow> error + Arch) \<Rightarrow> arch_class \<Rightarrow> error + Arch" where
  "instantiate absent (Src d) = construct d"
| "instantiate absent c = absent c"

text \<open>
  The second \<^verbatim>\<open>if arch_class is None\<close> of the source repeats the first and is never
  taken. The message of the error is the source's, with the device name between two
  apostrophes.
\<close>

definition create_device_arch ::
    "(arch_class \<Rightarrow> error + Arch) \<Rightarrow> string \<Rightarrow> error + Arch" where
  "create_device_arch absent device_name =
     (case DEVICE_ARCH_MAP device_name of
        None \<Rightarrow>
          Inl (ValueError
            (''No hardware abstraction class found for device: '' @ [CHR 0x27]
             @ device_name @ [CHR 0x27]
             @ ''. Please ensure the device name is correct and its corresponding ''
             @ ''Arch subclass is implemented and added to DEVICE_ARCH_MAP.''))
      | Some cls \<Rightarrow> instantiate absent cls)"


subsection \<open>Double-precision arithmetic\<close>

text \<open>
  The model above takes a Python \<^verbatim>\<open>float\<close> as a real. That is what the code computes
  as long as no operation rounds, which holds for the numbers of the three device classes
  (integers below \<open>2 ^ 53\<close>). For arbitrary arguments the code computes in IEEE binary64:
  \<^item> \<open>Finite x\<close> is the double with value \<open>x\<close> (the two zeros are one value here,
    \<^verbatim>\<open>-0.0 == 0.0\<close>), \<open>PosInf\<close> and \<open>NegInf\<close> are the infinities, \<open>NaN\<close> is
    not-a-number;
  \<^item> \<open>round_double\<close> rounds a real to the nearest double, ties to the even
    significand, and to an infinity from \<open>2 ^ 1024 - 2 ^ 970\<close> on: 53 bits of
    significand, the exponent of the last bit at least \<open>- 1074\<close>;
  \<^item> \<open>float_of_int\<close> is the conversion that \<^verbatim>\<open>int * float\<close> and \<^verbatim>\<open>float * int\<close>
    apply to the integer: correctly rounded, and \<^verbatim>\<open>OverflowError\<close> for an integer
    that rounds to an infinity;
  \<^item> \<open>fmul\<close> is \<^verbatim>\<open>float * float\<close>, which never raises.
\<close>

datatype pyfloat = Finite real | PosInf | NegInf | NaN

definition round_half_even :: "real \<Rightarrow> int" where
  "round_half_even y =
     (let f = \<lfloor>y\<rfloor>; r = y - of_int f
      in if r < 1 / 2 then f else if 1 / 2 < r then f + 1
         else if even f then f else f + 1)"

text \<open>For \<open>x > 0\<close>, the \<open>k\<close> with \<open>2 powi k \<le> x < 2 powi (k + 1)\<close>.\<close>

definition binade :: "real \<Rightarrow> int" where
  "binade x = (if 1 \<le> x then bitlen \<lfloor>x\<rfloor> - 1 else - bitlen (\<lceil>1 / x\<rceil> - 1))"

definition round_pos :: "real \<Rightarrow> pyfloat" where
  "round_pos x =
     (let e = max (binade x - 52) (- 1074);
          v = of_int (round_half_even (x / 2 powi e)) * 2 powi e
      in if 2 ^ 1024 \<le> v then PosInf else Finite v)"

fun fneg :: "pyfloat \<Rightarrow> pyfloat" where
  "fneg (Finite v) = Finite (- v)"
| "fneg PosInf = NegInf"
| "fneg NegInf = PosInf"
| "fneg NaN = NaN"

definition round_double :: "real \<Rightarrow> pyfloat" where
  "round_double x =
     (if x = 0 then Finite 0 else if 0 < x then round_pos x else fneg (round_pos (- x)))"

text \<open>The reals that are doubles, and the values of type \<open>pyfloat\<close> that are floats.\<close>

definition is_double :: "real \<Rightarrow> bool" where
  "is_double x \<longleftrightarrow> round_double x = Finite x"

fun is_pyfloat :: "pyfloat \<Rightarrow> bool" where
  "is_pyfloat (Finite x) = is_double x"
| "is_pyfloat f = True"

definition float_of_int :: "int \<Rightarrow> error + pyfloat" where
  "float_of_int n =
     (case round_double (of_int n) of
        Finite v \<Rightarrow> Inr (Finite v)
      | f \<Rightarrow> Inl (OverflowError ''int too large to convert to float''))"

fun fmul :: "pyfloat \<Rightarrow> pyfloat \<Rightarrow> pyfloat" where
  "fmul NaN g = NaN"
| "fmul f NaN = NaN"
| "fmul (Finite a) (Finite b) = round_double (a * b)"
| "fmul (Finite a) PosInf = (if a = 0 then NaN else if 0 < a then PosInf else NegInf)"
| "fmul (Finite a) NegInf = (if a = 0 then NaN else if 0 < a then NegInf else PosInf)"
| "fmul PosInf (Finite b) = (if b = 0 then NaN else if 0 < b then PosInf else NegInf)"
| "fmul NegInf (Finite b) = (if b = 0 then NaN else if 0 < b then NegInf else PosInf)"
| "fmul PosInf PosInf = PosInf"
| "fmul PosInf NegInf = NegInf"
| "fmul NegInf PosInf = NegInf"
| "fmul NegInf NegInf = PosInf"

text \<open>
  The comparisons of a float with the integer 0: \<^verbatim>\<open>f <= 0\<close>, \<^verbatim>\<open>f > 0\<close> and
  \<^verbatim>\<open>f >= 0\<close>. All are false for \<^verbatim>\<open>nan\<close>.
\<close>

fun float_le_zero :: "pyfloat \<Rightarrow> bool" where
  "float_le_zero (Finite x) = (x \<le> 0)"
| "float_le_zero NegInf = True"
| "float_le_zero PosInf = False"
| "float_le_zero NaN = False"

fun float_gt_zero :: "pyfloat \<Rightarrow> bool" where
  "float_gt_zero (Finite x) = (0 < x)"
| "float_gt_zero PosInf = True"
| "float_gt_zero NegInf = False"
| "float_gt_zero NaN = False"

fun float_ge_zero :: "pyfloat \<Rightarrow> bool" where
  "float_ge_zero (Finite x) = (0 \<le> x)"
| "float_ge_zero PosInf = True"
| "float_ge_zero NegInf = False"
| "float_ge_zero NaN = False"

text \<open>\<^verbatim>\<open>n * f\<close> and \<^verbatim>\<open>f * n\<close> for an integer \<open>n\<close> and a float \<open>f\<close>.\<close>

definition int_times_float :: "int \<Rightarrow> pyfloat \<Rightarrow> error + pyfloat" where
  "int_times_float n f =
     (case float_of_int n of Inl e \<Rightarrow> Inl e | Inr c \<Rightarrow> Inr (fmul c f))"

definition float_times_int :: "pyfloat \<Rightarrow> int \<Rightarrow> error + pyfloat" where
  "float_times_int f n =
     (case float_of_int n of Inl e \<Rightarrow> Inl e | Inr c \<Rightarrow> Inr (fmul f c))"

text \<open>An exception raised by the first computation ends the whole.\<close>

definition and_then :: "error + 'a \<Rightarrow> ('a \<Rightarrow> error + 'b) \<Rightarrow> error + 'b" where
  "and_then r k = (case r of Inl e \<Rightarrow> Inl e | Inr v \<Rightarrow> k v)"

text \<open>
  \<^verbatim>\<open>ComputeUnit.calculate_flops\<close> in double precision: the same statements as
  \<open>calculate_flops\<close>, the integer product converted and multiplied by \<^verbatim>\<open>freq_hz\<close> as
  the interpreter does it. \<^verbatim>\<open>float(...)\<close> of a float is that float.
\<close>

definition calculate_flops_double :: "ComputeUnit \<Rightarrow> int \<Rightarrow> pyfloat \<Rightarrow> error + pyfloat" where
  "calculate_flops_double u sm_count_arg freq_hz =
     (if sm_count_arg \<le> 0 \<or> float_le_zero freq_hz then Inr (Finite 0)
      else
        let shape_product = (if shape u = [] then 1 else prod_list (shape u));
            ops_per_sm_per_cycle = instances u * shape_product * ops_per_element u
        in int_times_float (ops_per_sm_per_cycle * sm_count_arg) freq_hz)"

text \<open>
  \<^verbatim>\<open>Arch.compute_bandwidth\<close> in double precision, on the object whose float-valued
  attributes are doubles. Each product is evaluated from the left, one multiplication
  at a time.
\<close>

type_synonym Arch_double = "pyfloat Arch_obj"

definition compute_bandwidth_double :: "Arch_double \<Rightarrow> error + Arch_double" where
  "compute_bandwidth_double s =
     and_then
       (if sm_count s > 0 \<and> float_gt_zero (freq s) \<and> l1_smem_throughput_per_cycle s > 0
        then and_then (int_times_float (sm_count s) (freq s))
               (\<lambda>p. float_times_int p (l1_smem_throughput_per_cycle s))
        else Inr (Finite 0))
       (\<lambda>smem.
          and_then
            (if sm_count s > 0 \<and> float_gt_zero (freq s) \<and> sm_sub_partitions s > 0
             then and_then (int_times_float (sm_count s) (freq s))
                    (\<lambda>p. and_then (float_times_int p (sm_sub_partitions s))
                       (\<lambda>q. and_then (float_times_int q 32)
                          (\<lambda>r. float_times_int r 4)))
             else Inr (Finite 0))
            (\<lambda>reg. Inr (s\<lparr> smem_bandwidth := smem, register_bandwidth := reg \<rparr>)))"

text \<open>
  \<^verbatim>\<open>Arch.__init__\<close> on doubles: the literals are integers, and \<^verbatim>\<open>0.9\<close> is the double
  nearest to nine tenths.
\<close>

definition Arch_init_double :: Arch_double where
  "Arch_init_double =
     \<lparr> core = None, sm_count = 0, freq = Finite 0,
       ddr_bandwidth = Finite 0, ddr_capacity = 0, l2_bandwidth = Finite 0, l2_capacity = 0,
       l2_partitions = 1,
       sm_sub_partitions = 0, l1_smem_throughput_per_cycle = 0,
       configurable_smem_capacity = 0, register_capacity_per_sm = 0,
       fp16_tensor_core_unit = None, fp32_cuda_core_unit = None, sfu_unit = None,
       fp16_tensor_flops = Finite 0, fp32_cuda_core_flops = Finite 0, sfu_flops = Finite 0,
       smem_bandwidth = Finite 0, register_bandwidth = Finite 0,
       ddr_max_util = round_double 0.9, l2_max_util = round_double 0.9,
       l1_max_util = round_double 0.9, compute_max_util = round_double 0.9,
       fp8_tensor_core_unit = None, fp4_tensor_core_unit = None,
       fp16_cuda_core_unit = None, fp64_cuda_core_unit = None, int32_cuda_core_unit = None,
       fp8_tensor_flops = None, fp4_tensor_flops = None, fp16_cuda_core_flops = None,
       fp64_cuda_core_flops = None, int32_cuda_core_flops = None,
       warp_schedulers_per_sm = None, base_freq = None, max_freq = None,
       int8_flops = None \<rparr>"

subsection \<open>Projections used to state the properties\<close>

text \<open>
  The fields that \<^verbatim>\<open>compute_flops\<close> and \<^verbatim>\<open>compute_bandwidth\<close> assign: the eight
  \<^verbatim>\<open>*_flops\<close> fields and the two bandwidths.
\<close>

definition derived_metrics ::
    "Arch \<Rightarrow> (real \<times> real option \<times> real option \<times> real \<times> real option \<times> real option
              \<times> real option \<times> real) \<times> real \<times> real" where
  "derived_metrics s =
     ((fp16_tensor_flops s, fp8_tensor_flops s, fp4_tensor_flops s, fp32_cuda_core_flops s,
       fp16_cuda_core_flops s, fp64_cuda_core_flops s, int32_cuda_core_flops s, sfu_flops s),
      smem_bandwidth s, register_bandwidth s)"

text \<open>The object with the fields assigned by \<^verbatim>\<open>compute_flops\<close> blanked.\<close>

definition erase_flops :: "Arch \<Rightarrow> Arch" where
  "erase_flops s =
     s\<lparr> fp16_tensor_flops := 0, fp8_tensor_flops := None, fp4_tensor_flops := None,
        fp32_cuda_core_flops := 0, fp16_cuda_core_flops := None,
        fp64_cuda_core_flops := None, int32_cuda_core_flops := None, sfu_flops := 0 \<rparr>"

text \<open>The object with the fields assigned by \<^verbatim>\<open>compute_bandwidth\<close> blanked.\<close>

definition erase_bandwidth :: "Arch \<Rightarrow> Arch" where
  "erase_bandwidth s = s\<lparr> smem_bandwidth := 0, register_bandwidth := 0 \<rparr>"

definition erase_derived :: "Arch \<Rightarrow> Arch" where
  "erase_derived s = erase_bandwidth (erase_flops s)"

text \<open>
  The object with the fields blanked that the \<^verbatim>\<open>set_to_microbench\<close> of the class
  assigns, by a statement of its own or through its call of \<^verbatim>\<open>compute_metrics\<close>:
  \<^item> \<^verbatim>\<open>H100_PCIE\<close>: \<^verbatim>\<open>base_freq\<close>, \<^verbatim>\<open>max_freq\<close>, \<^verbatim>\<open>freq\<close>, the four ceilings,
    \<^verbatim>\<open>ddr_bandwidth\<close>, \<^verbatim>\<open>l2_bandwidth\<close>, \<^verbatim>\<open>smem_bandwidth\<close>, what
    \<^verbatim>\<open>compute_metrics\<close> assigns, and \<^verbatim>\<open>int8_flops\<close>;
  \<^item> \<^verbatim>\<open>H100_SXM\<close>: nothing;
  \<^item> \<^verbatim>\<open>MI250X\<close>: \<^verbatim>\<open>freq\<close>, the four ceilings, \<^verbatim>\<open>ddr_bandwidth\<close>,
    \<^verbatim>\<open>l2_bandwidth\<close>, \<^verbatim>\<open>smem_bandwidth\<close>, \<^verbatim>\<open>fp32_cuda_core_flops\<close>,
    \<^verbatim>\<open>fp16_cuda_core_flops\<close> and \<^verbatim>\<open>fp16_tensor_flops\<close>.
\<close>

fun microbench_frame :: "device \<Rightarrow> Arch \<Rightarrow> Arch" where
  "microbench_frame H100_PCIE s =
     (erase_derived s)\<lparr> base_freq := None, max_freq := None, freq := 0,
        ddr_max_util := 0, l2_max_util := 0, l1_max_util := 0, compute_max_util := 0,
        ddr_bandwidth := 0, l2_bandwidth := 0, int8_flops := None \<rparr>"
| "microbench_frame H100_SXM s = s"
| "microbench_frame MI250X s =
     s\<lparr> freq := 0,
        ddr_max_util := 0, l2_max_util := 0, l1_max_util := 0, compute_max_util := 0,
        ddr_bandwidth := 0, l2_bandwidth := 0, smem_bandwidth := 0,
        fp32_cuda_core_flops := 0, fp16_cuda_core_flops := None, fp16_tensor_flops := 0 \<rparr>"

text \<open>
  The configuration scalars other than the frequency, the bandwidth inputs and the
  ceilings, and the eight unit slots.
\<close>

definition scalars_and_slots ::
    "Arch \<Rightarrow> (string option \<times> int \<times> int \<times> int \<times> int \<times> int \<times> int \<times> int \<times> int
              \<times> int option)
            \<times> (ComputeUnit option \<times> ComputeUnit option \<times> ComputeUnit option
              \<times> ComputeUnit option \<times> ComputeUnit option \<times> ComputeUnit option
              \<times> ComputeUnit option \<times> ComputeUnit option)" where
  "scalars_and_slots s =
     ((core s, sm_count s, ddr_capacity s, l2_capacity s, l2_partitions s,
       sm_sub_partitions s, l1_smem_throughput_per_cycle s, configurable_smem_capacity s,
       register_capacity_per_sm s, warp_schedulers_per_sm s),
      (fp16_tensor_core_unit s, fp8_tensor_core_unit s, fp4_tensor_core_unit s,
       fp32_cuda_core_unit s, fp16_cuda_core_unit s, fp64_cuda_core_unit s,
       int32_cuda_core_unit s, sfu_unit s))"

text \<open>The construction invariant of a \<^verbatim>\<open>ComputeUnit\<close> that the specification states.\<close>

definition unit_invariant :: "ComputeUnit \<Rightarrow> bool" where
  "unit_invariant u \<longleftrightarrow>
     1 \<le> instances u \<and> 1 \<le> ops_per_element u \<and> list_all (\<lambda>d. 0 < d) (shape u)"

section \<open>Properties\<close>

subsection \<open>Metric computation\<close>

lemmas metric_defs = compute_metrics_def compute_flops_def compute_bandwidth_def

lemma compute_metrics_idem: "compute_metrics (compute_metrics s) = compute_metrics s"
  by (simp add: metric_defs)

lemma compute_metrics_int8:
  "compute_metrics (s\<lparr> int8_flops := x \<rparr>) = (compute_metrics s)\<lparr> int8_flops := x \<rparr>"
  by (simp add: metric_defs)

lemma prod_list_pos: "list_all (\<lambda>d. 0 < d) ds \<Longrightarrow> 0 < prod_list (ds :: int list)"
  by (induction ds) simp_all

text \<open>
  C6, as the code has it. For \<open>shape = []\<close>, \<open>instances = 4\<close>,
  \<open>ops_per_element = 2\<close>, \<^verbatim>\<open>calculate_flops(114, 1.755e9)\<close> is
  \<open>4 * 1 * 2 * 114 * 1.755e9 = 1,600,560,000,000\<close>. Every number in the computation
  is an integer below \<open>2 ^ 53\<close>, which a double holds exactly.
\<close>

theorem calculate_flops_example:
  "calculate_flops
     \<lparr> unit_type = t, dtype = d, instances = 4, shape = [], ops_per_element = 2 \<rparr>
     114 (1.755 * 10 ^ 9) = 1600560000000"
  by (simp add: calculate_flops_def)

text \<open>The value that the specification gives for this example is not the result.\<close>

theorem calculate_flops_example_counterexample:
  "calculate_flops
     \<lparr> unit_type = ''vector'', dtype = ''fp32'', instances = 4, shape = [],
       ops_per_element = 2 \<rparr>
     114 (1.755 * 10 ^ 9) \<noteq> 1601964000000"
  by (simp add: calculate_flops_def)


subsection \<open>What the metric computation reads\<close>

lemmas erase_defs = erase_flops_def erase_bandwidth_def erase_derived_def

lemma compute_metrics_erase_derived: "compute_metrics (erase_derived s) = compute_metrics s"
  by (simp add: metric_defs erase_defs)

text \<open>
  \<^verbatim>\<open>compute_metrics\<close> reads no derived-metric field: two objects that differ in those
  fields only have the same object after it.
\<close>

lemma compute_metrics_cong:
  assumes "erase_derived a = erase_derived b"
  shows "compute_metrics a = compute_metrics b"
proof -
  have "compute_metrics a = compute_metrics (erase_derived a)"
    by (simp only: compute_metrics_erase_derived)
  also have "\<dots> = compute_metrics (erase_derived b)"
    by (simp only: assms)
  also have "\<dots> = compute_metrics b"
    by (simp only: compute_metrics_erase_derived)
  finally show ?thesis .
qed

lemma max_freq_compute_metrics: "max_freq (compute_metrics s) = max_freq s"
  by (simp add: metric_defs)

lemma fp16_tensor_flops_int8:
  "fp16_tensor_flops (s\<lparr> int8_flops := x \<rparr>) = fp16_tensor_flops s"
  by simp

lemma int8_twice: "s\<lparr> int8_flops := x, int8_flops := y \<rparr> = s\<lparr> int8_flops := y \<rparr>"
  by simp

subsection \<open>H100_PCIE.set_to_spec\<close>

lemma max_freq_before_read: "max_freq (H100_PCIE_spec_before_read s) = max_freq s"
  by (simp add: H100_PCIE_spec_before_read_def)

lemma H100_PCIE_set_to_spec_None:
  assumes "max_freq s = None"
  shows "H100_PCIE_set_to_spec s = Inl (AttributeError ''max_freq'')"
  using assms by (simp add: H100_PCIE_set_to_spec_def max_freq_before_read)

text \<open>The object that \<^verbatim>\<open>set_to_spec\<close> hands to \<^verbatim>\<open>compute_metrics\<close>.\<close>

lemma H100_PCIE_set_to_spec_Some:
  assumes "max_freq s = Some f"
  shows "H100_PCIE_set_to_spec s =
     Inr ((compute_metrics (H100_PCIE_spec_after_read f (H100_PCIE_spec_before_read s)))
            \<lparr> int8_flops := Some (fp16_tensor_flops
                 (compute_metrics (H100_PCIE_spec_after_read f (H100_PCIE_spec_before_read s)))
                   * 2) \<rparr>)"
  using assms by (simp add: H100_PCIE_set_to_spec_def max_freq_before_read Let_def)

lemma max_freq_spec_tables:
  "max_freq (H100_PCIE_spec_after_read f (H100_PCIE_spec_before_read s)) = max_freq s"
  by (simp add: H100_PCIE_spec_after_read_def H100_PCIE_spec_before_read_def)

text \<open>
  Running the assignments of \<^verbatim>\<open>set_to_spec\<close> on the object that \<^verbatim>\<open>set_to_spec\<close>
  returned changes no field that \<^verbatim>\<open>compute_metrics\<close> reads.
\<close>

lemma spec_tables_again:
  "erase_derived (H100_PCIE_spec_after_read f (H100_PCIE_spec_before_read
       ((compute_metrics (H100_PCIE_spec_after_read f (H100_PCIE_spec_before_read s)))
          \<lparr> int8_flops := x \<rparr>)))
   = erase_derived ((H100_PCIE_spec_after_read f (H100_PCIE_spec_before_read s))
          \<lparr> int8_flops := x \<rparr>)"
  by (simp add: H100_PCIE_spec_after_read_def H100_PCIE_spec_before_read_def
      metric_defs erase_defs)

lemma H100_PCIE_set_to_spec_idem:
  assumes "H100_PCIE_set_to_spec s = Inr s'"
  shows "H100_PCIE_set_to_spec s' = Inr s'"
proof (cases "max_freq s")
  case None
  with assms show ?thesis by (simp add: H100_PCIE_set_to_spec_None)
next
  case (Some f)
  let ?t = "H100_PCIE_spec_after_read f (H100_PCIE_spec_before_read s)"
  let ?x = "Some (fp16_tensor_flops (compute_metrics ?t) * 2)"
  have s': "s' = (compute_metrics ?t)\<lparr> int8_flops := ?x \<rparr>"
    using assms H100_PCIE_set_to_spec_Some [OF Some] by simp
  have mf: "max_freq s' = Some f"
    by (simp add: s' max_freq_compute_metrics max_freq_spec_tables Some)
  have "compute_metrics (H100_PCIE_spec_after_read f (H100_PCIE_spec_before_read s'))
      = compute_metrics (?t\<lparr> int8_flops := ?x \<rparr>)"
    unfolding s' by (rule compute_metrics_cong) (rule spec_tables_again)
  also have "\<dots> = s'"
    by (simp only: s' compute_metrics_int8)
  finally have again:
    "compute_metrics (H100_PCIE_spec_after_read f (H100_PCIE_spec_before_read s')) = s'" .
  have "fp16_tensor_flops s' = fp16_tensor_flops (compute_metrics ?t)"
    by (simp only: s' fp16_tensor_flops_int8)
  then have "s'\<lparr> int8_flops := Some (fp16_tensor_flops s' * 2) \<rparr> = s'"
    by (simp only: s' int8_twice)
  then show ?thesis
    by (simp only: H100_PCIE_set_to_spec_Some [OF mf] again)
qed

lemma H100_PCIE_set_to_spec_consistent:
  assumes "H100_PCIE_set_to_spec s = Inr s'"
  shows "compute_metrics s' = s'"
proof (cases "max_freq s")
  case None
  with assms show ?thesis by (simp add: H100_PCIE_set_to_spec_None)
next
  case (Some f)
  from assms show ?thesis
    by (simp only: H100_PCIE_set_to_spec_Some [OF Some])
      (auto simp only: compute_metrics_int8 compute_metrics_idem)
qed

subsection \<open>The other mode methods\<close>

lemma H100_PCIE_set_to_microbench_idem:
  "H100_PCIE_set_to_microbench (H100_PCIE_set_to_microbench s) = H100_PCIE_set_to_microbench s"
  by (simp add: H100_PCIE_set_to_microbench_def Let_def metric_defs)

lemma H100_PCIE_set_to_ncu_idem:
  "H100_PCIE_set_to_ncu (H100_PCIE_set_to_ncu s) = H100_PCIE_set_to_ncu s"
  by (simp add: H100_PCIE_set_to_ncu_def Let_def metric_defs)

lemma H100_SXM_set_to_spec_idem:
  "H100_SXM_set_to_spec (H100_SXM_set_to_spec s) = H100_SXM_set_to_spec s"
  by (simp add: H100_SXM_set_to_spec_def metric_defs)

lemma H100_SXM_set_to_ncu_idem:
  "H100_SXM_set_to_ncu (H100_SXM_set_to_ncu s) = H100_SXM_set_to_ncu s"
  by (simp add: H100_SXM_set_to_ncu_def metric_defs)

lemma MI250X_set_to_spec_idem:
  "MI250X_set_to_spec (MI250X_set_to_spec s) = MI250X_set_to_spec s"
  by (simp add: MI250X_set_to_spec_def metric_defs)

lemma MI250X_set_to_microbench_idem:
  "MI250X_set_to_microbench (MI250X_set_to_microbench s) = MI250X_set_to_microbench s"
  by (simp add: MI250X_set_to_microbench_def)

lemma MI250X_set_to_ncu_idem:
  "MI250X_set_to_ncu (MI250X_set_to_ncu s) = MI250X_set_to_ncu s"
  by (simp add: MI250X_set_to_ncu_def metric_defs)

text \<open>Every mode method returns on the object that it returned.\<close>

lemma set_mode_idem:
  assumes "set_mode d m s = Inr s'"
  shows "set_mode d m s' = Inr s'"
proof (cases d)
  case H100_PCIE
  with assms show ?thesis
    by (cases m)
      (auto simp: H100_PCIE_set_to_spec_idem H100_PCIE_set_to_microbench_idem
        H100_PCIE_set_to_ncu_idem)
next
  case H100_SXM
  with assms show ?thesis
    by (cases m)
      (auto simp: H100_SXM_set_to_spec_idem H100_SXM_set_to_microbench_def
        H100_SXM_set_to_ncu_idem)
next
  case MI250X
  with assms show ?thesis
    by (cases m)
      (auto simp: MI250X_set_to_spec_idem MI250X_set_to_microbench_idem
        MI250X_set_to_ncu_idem)
qed

text \<open>The methods that end with \<^verbatim>\<open>compute_metrics\<close> leave its fixed point.\<close>

lemma H100_PCIE_modes_consistent:
  "compute_metrics (H100_PCIE_set_to_microbench s) = H100_PCIE_set_to_microbench s"
  "compute_metrics (H100_PCIE_set_to_ncu s) = H100_PCIE_set_to_ncu s"
  by (simp_all add: H100_PCIE_set_to_microbench_def H100_PCIE_set_to_ncu_def Let_def
      compute_metrics_int8 compute_metrics_idem)

lemma H100_SXM_modes_consistent:
  "compute_metrics (H100_SXM_set_to_spec s) = H100_SXM_set_to_spec s"
  "compute_metrics (H100_SXM_set_to_ncu s) = H100_SXM_set_to_ncu s"
  by (simp_all only: H100_SXM_set_to_spec_def H100_SXM_set_to_ncu_def compute_metrics_idem)

lemma MI250X_modes_consistent:
  "compute_metrics (MI250X_set_to_spec s) = MI250X_set_to_spec s"
  "compute_metrics (MI250X_set_to_ncu s) = MI250X_set_to_ncu s"
  by (simp_all only: MI250X_set_to_spec_def MI250X_set_to_ncu_def compute_metrics_idem)

text \<open>
  Every \<^verbatim>\<open>H100_SXM\<close> object that a caller can hold is a fixed point of
  \<^verbatim>\<open>compute_metrics\<close>: the constructor and two of the methods end with it, and the
  third method changes nothing.
\<close>

lemma reachable_H100_SXM_consistent:
  assumes "reachable d s" and "d = H100_SXM"
  shows "compute_metrics s = s"
  using assms
proof (induction rule: reachable.induct)
  case (constructed d s)
  then show ?case
    by (auto simp: H100_SXM_init_def H100_SXM_modes_consistent)
next
  case (configured d s m s')
  then show ?case
    by (cases m) (auto simp: H100_SXM_modes_consistent H100_SXM_set_to_microbench_def)
qed

lemma reachable_H100_SXM_init: "reachable H100_SXM H100_SXM_init"
  by (rule reachable.constructed) simp

text \<open>
  The sibling paths. Every mode method other than \<^verbatim>\<open>MI250X.set_to_microbench\<close>
  leaves each derived-metric field at the value that \<^verbatim>\<open>compute_metrics\<close> computes
  from the object as it is when the method returns; \<^verbatim>\<open>H100_SXM.set_to_microbench\<close>,
  which assigns nothing, on every object that the constructor and the mode methods can
  produce.
\<close>

lemma mode_method_metrics_current:
  assumes "set_mode d m s = Inr s'"
    and "(d, m) \<noteq> (MI250X, Microbench)"
    and "d = H100_SXM \<Longrightarrow> m = Microbench \<Longrightarrow> reachable d s"
  shows "derived_metrics s' = derived_metrics (compute_metrics s')"
proof -
  have "compute_metrics s' = s'"
  proof (cases d)
    case H100_PCIE
    with assms(1) show ?thesis
      by (cases m) (auto simp: H100_PCIE_set_to_spec_consistent H100_PCIE_modes_consistent)
  next
    case H100_SXM
    show ?thesis
    proof (cases m)
      case Microbench
      with H100_SXM assms(3) have "reachable d s" by simp
      then have "compute_metrics s = s"
        using H100_SXM by (rule reachable_H100_SXM_consistent)
      with H100_SXM Microbench assms(1) show ?thesis
        by (auto simp: H100_SXM_set_to_microbench_def)
    qed (use H100_SXM assms(1) in \<open>auto simp: H100_SXM_modes_consistent\<close>)
  next
    case MI250X
    with assms(1,2) show ?thesis
      by (cases m) (auto simp: MI250X_modes_consistent)
  qed
  then show ?thesis by simp
qed

lemma mode_method_metrics_current_H100_SXM:
  "set_mode H100_SXM Microbench H100_SXM_init = Inr H100_SXM_init
   \<and> reachable H100_SXM H100_SXM_init
   \<and> derived_metrics H100_SXM_init = derived_metrics (compute_metrics H100_SXM_init)"
proof -
  have run: "set_mode H100_SXM Microbench H100_SXM_init = Inr H100_SXM_init"
    by (simp add: H100_SXM_set_to_microbench_def)
  have "derived_metrics H100_SXM_init = derived_metrics (compute_metrics H100_SXM_init)"
    using run
  proof (rule mode_method_metrics_current)
    show "(H100_SXM, Microbench) \<noteq> (MI250X, Microbench)" by simp
    show "reachable H100_SXM H100_SXM_init" by (rule reachable_H100_SXM_init)
  qed
  with run reachable_H100_SXM_init show ?thesis by simp
qed

text \<open>
  C2, what the code does. \<^verbatim>\<open>MI250X.set_to_microbench\<close> assigns a new \<^verbatim>\<open>freq\<close>
  and returns without calling \<^verbatim>\<open>compute_metrics\<close>. After \<^verbatim>\<open>MI250X()\<close> and
  \<^verbatim>\<open>set_to_microbench()\<close> the frequency of the object is 1.36 GHz, and the fields
  \<open>sfu_flops\<close>, \<open>fp64_cuda_core_flops\<close> and \<open>register_bandwidth\<close>, which the method
  does not assign, still hold the values computed for the specification frequency
  2.1 GHz: they are not what \<^verbatim>\<open>compute_metrics\<close> computes from the object.
\<close>

theorem MI250X_set_to_microbench_stale_metrics:
  "construct MI250X = Inr MI250X_init
   \<and> set_mode MI250X Microbench MI250X_init = Inr (MI250X_set_to_microbench MI250X_init)
   \<and> freq (MI250X_set_to_microbench MI250X_init) = 1360000000
   \<and> sfu_flops (MI250X_set_to_microbench MI250X_init) = 7392000000000
   \<and> sfu_flops (compute_metrics (MI250X_set_to_microbench MI250X_init)) = 4787200000000
   \<and> fp64_cuda_core_flops (MI250X_set_to_microbench MI250X_init) = Some 14784000000000
   \<and> fp64_cuda_core_flops (compute_metrics (MI250X_set_to_microbench MI250X_init))
       = Some 9574400000000
   \<and> register_bandwidth (MI250X_set_to_microbench MI250X_init) = 118272000000000
   \<and> register_bandwidth (compute_metrics (MI250X_set_to_microbench MI250X_init))
       = 76595200000000
   \<and> derived_metrics (MI250X_set_to_microbench MI250X_init)
       \<noteq> derived_metrics (compute_metrics (MI250X_set_to_microbench MI250X_init))"
  by (simp add: MI250X_init_def MI250X_set_to_spec_def MI250X_set_to_microbench_def
      Arch_init_def metric_defs slot_flops_def calculate_flops_def derived_metrics_def)

text \<open>
  C7. A mode method called on the object that the same method has just returned
  returns again, and the derived-metric fields are the same after the second call as
  after the first.
\<close>

theorem mode_twice_same_metrics:
  assumes "set_mode d m s = Inr s1"
  shows "\<exists>s2. set_mode d m s1 = Inr s2 \<and> derived_metrics s2 = derived_metrics s1"
  using set_mode_idem [OF assms] by simp

theorem mode_twice_same_metrics_witness:
  "set_mode MI250X Microbench MI250X_init = Inr (MI250X_set_to_microbench MI250X_init)
   \<and> (\<exists>s2. set_mode MI250X Microbench (MI250X_set_to_microbench MI250X_init) = Inr s2
         \<and> derived_metrics s2 = derived_metrics (MI250X_set_to_microbench MI250X_init))"
proof -
  have run: "set_mode MI250X Microbench MI250X_init
      = Inr (MI250X_set_to_microbench MI250X_init)"
    by simp
  from mode_twice_same_metrics [OF run] run show ?thesis by simp
qed

text \<open>
  C8. When \<^verbatim>\<open>set_to_microbench\<close> is called on the object that \<^verbatim>\<open>set_to_spec\<close>
  returned, it returns, and every field that the class's \<^verbatim>\<open>set_to_microbench\<close> does
  not assign holds the value it held after \<^verbatim>\<open>set_to_spec\<close>; among them the
  configuration scalars and the unit slots.
\<close>

theorem microbench_after_spec_frame:
  assumes "set_mode d Spec s0 = Inr s"
  shows "\<exists>s'. set_mode d Microbench s = Inr s'
           \<and> microbench_frame d s' = microbench_frame d s
           \<and> scalars_and_slots s' = scalars_and_slots s"
proof (cases d)
  case H100_PCIE
  then show ?thesis
    by (simp add: H100_PCIE_set_to_microbench_def Let_def metric_defs erase_defs
        scalars_and_slots_def)
next
  case H100_SXM
  then show ?thesis by (simp add: H100_SXM_set_to_microbench_def)
next
  case MI250X
  then show ?thesis
    by (simp add: MI250X_set_to_microbench_def scalars_and_slots_def)
qed

theorem microbench_after_spec_frame_witness:
  "set_mode MI250X Spec Arch_init = Inr MI250X_init
   \<and> (\<exists>s'. set_mode MI250X Microbench MI250X_init = Inr s'
         \<and> microbench_frame MI250X s' = microbench_frame MI250X MI250X_init
         \<and> scalars_and_slots s' = scalars_and_slots MI250X_init)"
proof -
  have run: "set_mode MI250X Spec Arch_init = Inr MI250X_init"
    by (simp add: MI250X_init_def)
  from microbench_after_spec_frame [OF run] run show ?thesis by simp
qed

subsection \<open>Construction and the device factory\<close>

text \<open>
  C1, what the code does. \<^verbatim>\<open>H100_PCIE()\<close> returns no object: its
  \<^verbatim>\<open>set_to_spec\<close> reads \<^verbatim>\<open>self.max_freq\<close> on an object that has no such attribute,
  and the constructor ends with \<^verbatim>\<open>AttributeError\<close>.
\<close>

theorem H100_PCIE_constructor_raises:
  "construct H100_PCIE = Inl (AttributeError ''max_freq'')"
  by (simp add: H100_PCIE_init_def H100_PCIE_set_to_spec_None Arch_init_def)

text \<open>The other two constructors return, and so does every mode method on their objects.\<close>

lemma fresh_instance_modes_return:
  assumes "d \<noteq> H100_PCIE"
  shows "\<exists>s. construct d = Inr s \<and> (\<forall>m. \<exists>s'. set_mode d m s = Inr s')"
proof (cases d)
  case H100_PCIE
  with assms show ?thesis by simp
next
  case H100_SXM
  have "\<exists>s'. set_mode H100_SXM m H100_SXM_init = Inr s'" for m by (cases m) simp_all
  with H100_SXM show ?thesis by simp
next
  case MI250X
  have "\<exists>s'. set_mode MI250X m MI250X_init = Inr s'" for m by (cases m) simp_all
  with MI250X show ?thesis by simp
qed

text \<open>An unmapped device name is refused with \<^verbatim>\<open>ValueError\<close>.\<close>

lemma create_device_arch_unmapped:
  assumes "DEVICE_ARCH_MAP name = None"
  shows "\<exists>msg. create_device_arch absent name = Inl (ValueError msg)"
  using assms by (simp add: create_device_arch_def)

text \<open>
  C9, what the code does. For the mapped name \<^verbatim>\<open>NVIDIA H100 PCIe\<close>,
  \<^verbatim>\<open>create_device_arch\<close> returns no object: the call of the class raises
  \<^verbatim>\<open>AttributeError\<close>, whatever the two classes outside the sources do.
\<close>

theorem create_device_arch_H100_PCIE_raises:
  "create_device_arch absent ''NVIDIA H100 PCIe'' = Inl (AttributeError ''max_freq'')"
  by (simp add: create_device_arch_def DEVICE_ARCH_MAP_def H100_PCIE_init_def
      H100_PCIE_set_to_spec_None Arch_init_def)

subsection \<open>Rounding to a double\<close>

lemma bitlen_pos: "0 < n \<Longrightarrow> 1 \<le> bitlen n"
  by (simp add: bitlen_alt_def)

lemma binade_nonneg: "1 \<le> x \<Longrightarrow> 0 \<le> binade x"
proof -
  assume x: "1 \<le> x"
  then have "0 < \<lfloor>x\<rfloor>" by simp
  then have "1 \<le> bitlen \<lfloor>x\<rfloor>" by (rule bitlen_pos)
  with x show ?thesis by (simp add: binade_def)
qed

lemma binade_lower:
  assumes "0 < x"
  shows "2 powi (binade x) \<le> x"
proof (cases "1 \<le> x")
  case True
  let ?n = "\<lfloor>x\<rfloor>"
  from True have n: "0 < ?n" by simp
  then have b: "1 \<le> bitlen ?n" by (rule bitlen_pos)
  from bitlen_bounds [OF n] have "2 ^ nat (bitlen ?n - 1) \<le> ?n" ..
  then have "real_of_int (2 ^ nat (bitlen ?n - 1)) \<le> real_of_int ?n"
    by (simp only: of_int_le_iff)
  then have "(2::real) ^ nat (bitlen ?n - 1) \<le> real_of_int ?n" by simp
  also have "real_of_int ?n \<le> x" by simp
  finally have "(2::real) ^ nat (bitlen ?n - 1) \<le> x" .
  moreover have "(2::real) powi (bitlen ?n - 1) = 2 ^ nat (bitlen ?n - 1)"
    using b by (simp add: power_int_def)
  ultimately show ?thesis using True by (simp add: binade_def)
next
  case False
  let ?m = "\<lceil>1 / x\<rceil> - 1"
  let ?j = "bitlen ?m"
  from False assms have "1 < 1 / x" by simp
  then have "1 < \<lceil>1 / x\<rceil>" by (simp add: less_ceiling_iff)
  then have m: "0 < ?m" by simp
  from bitlen_bounds [OF m] have "?m < 2 ^ nat ?j" ..
  then have "\<lceil>1 / x\<rceil> \<le> 2 ^ nat ?j" by simp
  then have "real_of_int \<lceil>1 / x\<rceil> \<le> real_of_int (2 ^ nat ?j)"
    by (simp only: of_int_le_iff)
  then have "real_of_int \<lceil>1 / x\<rceil> \<le> 2 ^ nat ?j" by simp
  moreover have "1 / x \<le> real_of_int \<lceil>1 / x\<rceil>" by (rule le_of_int_ceiling)
  ultimately have "1 / x \<le> 2 ^ nat ?j" by linarith
  with assms have "1 \<le> 2 ^ nat ?j * x"
    by (simp add: divide_le_eq)
  then have "1 / 2 ^ nat ?j \<le> x"
    by (simp add: divide_le_eq mult.commute)
  moreover have "(2::real) powi (- ?j) = 1 / 2 ^ nat ?j"
    using bitlen_nonneg [of ?m] by (simp add: power_int_def field_simps)
  ultimately show ?thesis using False by (simp add: binade_def)
qed

lemma binade_less:
  assumes "0 < x" and "x < 2 powi K"
  shows "binade x < K"
proof (rule ccontr)
  assume "\<not> binade x < K"
  then have "K \<le> binade x" by simp
  then have "(2::real) powi K \<le> 2 powi (binade x)"
    by (rule power_int_increasing) simp
  also have "\<dots> \<le> x" using assms(1) by (rule binade_lower)
  finally show False using assms(2) by simp
qed

lemma round_half_even_of_int: "round_half_even (of_int n) = n"
  by (simp add: round_half_even_def)

lemma round_half_even_ge: "\<lfloor>y\<rfloor> \<le> round_half_even y"
  by (simp add: round_half_even_def Let_def)

lemma round_half_even_le: "round_half_even y \<le> \<lfloor>y\<rfloor> + 1"
  by (simp add: round_half_even_def Let_def)

lemma round_pos_of_int:
  assumes "0 < n" and "n < 2 ^ 53"
  shows "round_pos (of_int n) = Finite (of_int n)"
proof -
  let ?x = "real_of_int n"
  let ?k = "binade ?x"
  from assms(1) have x1: "1 \<le> ?x" by simp
  then have k0: "0 \<le> ?k" by (rule binade_nonneg)
  have "?x < 2 powi 53" using assms(2) by (simp flip: of_int_less_iff)
  with x1 have k53: "?k < 53" by (intro binade_less) simp_all
  from k0 have e: "max (?k - 52) (- 1074) = ?k - 52" by simp
  have p: "(2::real) powi (?k - 52) = 1 / 2 ^ nat (52 - ?k)"
    using k53 by (simp add: power_int_def field_simps nat_diff_distrib)
  have q: "?x / 2 powi (?k - 52) = real_of_int (n * 2 ^ nat (52 - ?k))"
    by (simp add: p)
  have m: "round_half_even (?x / 2 powi (?k - 52)) = n * 2 ^ nat (52 - ?k)"
    unfolding q by (rule round_half_even_of_int)
  have v: "real_of_int (n * 2 ^ nat (52 - ?k)) * 2 powi (?k - 52) = ?x"
    by (simp add: p)
  have small: "\<not> (2::real) ^ 1024 \<le> ?x"
  proof -
    have "?x < 2 ^ 53" using assms(2) by (simp flip: of_int_less_iff)
    also have "(2::real) ^ 53 \<le> 2 ^ 1024" by (rule power_increasing) simp_all
    finally show ?thesis by simp
  qed
  show ?thesis
    unfolding round_pos_def Let_def e m v using small by simp
qed

lemma round_double_of_int:
  assumes "\<bar>n\<bar> < 2 ^ 53"
  shows "round_double (of_int n) = Finite (of_int n)"
proof -
  consider "n = 0" | "0 < n" | "n < 0" by linarith
  then show ?thesis
  proof cases
    case 1
    then show ?thesis by (simp add: round_double_def)
  next
    case 2
    with assms have "n < 2 ^ 53" by simp
    with 2 show ?thesis by (simp add: round_double_def round_pos_of_int)
  next
    case 3
    with assms have "0 < - n" and "- n < 2 ^ 53" by simp_all
    then have "round_pos (of_int (- n)) = Finite (of_int (- n))" by (rule round_pos_of_int)
    with 3 show ?thesis by (simp add: round_double_def)
  qed
qed

text \<open>A positive number at or above the smallest positive double does not round to zero.\<close>

lemma round_pos_positive:
  assumes "2 powi (- 1074) \<le> x"
  shows "round_pos x = PosInf \<or> (\<exists>v. round_pos x = Finite v \<and> 0 < v)"
proof -
  have x0: "0 < x"
    using assms zero_less_power_int [of "2::real" "- 1074"] by linarith
  let ?e = "max (binade x - 52) (- 1074)"
  let ?y = "x / 2 powi ?e"
  have "2 powi ?e \<le> x"
  proof (cases "binade x - 52 \<le> - 1074")
    case True
    then have "?e = - 1074" by simp
    with assms show ?thesis by simp
  next
    case False
    then have "?e = binade x - 52" by simp
    moreover have "(2::real) powi (binade x - 52) \<le> 2 powi (binade x)"
      by (rule power_int_increasing) simp_all
    moreover have "2 powi (binade x) \<le> x" using x0 by (rule binade_lower)
    ultimately show ?thesis by simp
  qed
  then have "1 \<le> ?y" by (simp add: le_divide_eq)
  then have "1 \<le> \<lfloor>?y\<rfloor>" by simp
  also have "\<dots> \<le> round_half_even ?y" by (rule round_half_even_ge)
  finally have "0 < round_half_even ?y" by simp
  then have "0 < real_of_int (round_half_even ?y) * 2 powi ?e"
    by (intro mult_pos_pos) simp_all
  then show ?thesis
    by (simp add: round_pos_def Let_def)
qed

text \<open>A number that is at least 1 does not round below 1.\<close>

lemma round_pos_ge_one:
  assumes "1 \<le> x"
  shows "round_pos x = PosInf \<or> (\<exists>v. round_pos x = Finite v \<and> 1 \<le> v)"
proof -
  let ?k = "binade x"
  from assms have k0: "0 \<le> ?k" by (rule binade_nonneg)
  then have e: "max (?k - 52) (- 1074) = ?k - 52" by simp
  let ?y = "x / 2 powi (?k - 52)"
  from assms have x0: "0 < x" by simp
  have "2 powi ?k \<le> x" using x0 by (rule binade_lower)
  then have "2 powi ?k / 2 powi (?k - 52) \<le> ?y"
    by (intro divide_right_mono) simp_all
  moreover have "(2::real) powi ?k / 2 powi (?k - 52) = 2 ^ 52"
    by (simp add: power_int_diff)
  ultimately have "real_of_int (2 ^ 52) \<le> ?y" by simp
  then have "2 ^ 52 \<le> \<lfloor>?y\<rfloor>" by (simp only: le_floor_iff)
  also have "\<dots> \<le> round_half_even ?y" by (rule round_half_even_ge)
  finally have "(2::real) ^ 52 \<le> real_of_int (round_half_even ?y)"
    by (simp flip: of_int_le_iff)
  then have "2 ^ 52 * 2 powi (?k - 52) \<le> real_of_int (round_half_even ?y) * 2 powi (?k - 52)"
    by (intro mult_right_mono) simp_all
  moreover have "(2::real) ^ 52 * 2 powi (?k - 52) = 2 powi ?k"
    by (simp add: power_int_diff)
  moreover have "(1::real) \<le> 2 powi ?k"
    using k0 by simp
  ultimately have "1 \<le> real_of_int (round_half_even ?y) * 2 powi (?k - 52)" by linarith
  then show ?thesis
    unfolding round_pos_def Let_def e by simp
qed

text \<open>The smallest positive double is \<open>2 powi (- 1074)\<close>.\<close>

lemma is_double_min:
  assumes "is_double x" and "0 < x"
  shows "2 powi (- 1074) \<le> x"
proof (rule ccontr)
  define u :: real where "u = 2 powi (- 1074)"
  have u0: "0 < u" by (simp only: u_def zero_less_power_int zero_less_numeral)
  assume "\<not> 2 powi (- 1074) \<le> x"
  then have small: "x < u" by (simp only: u_def not_le)
  have "binade x < - 1074"
    using assms(2) small unfolding u_def by (rule binade_less)
  then have e: "max (binade x - 52) (- 1074) = - 1074" by simp
  let ?m = "round_half_even (x / u)"
  have y0: "0 < x / u" using assms(2) u0 by simp
  have y1: "x / u < 1" using small u0 by (simp add: divide_less_eq)
  from y0 y1 have fl: "\<lfloor>x / u\<rfloor> = 0" by (simp add: floor_eq_iff)
  have m01: "?m = 0 \<or> ?m = 1"
    using round_half_even_ge [of "x / u"] round_half_even_le [of "x / u"] fl by auto
  from assms have "round_pos x = Finite x"
    by (simp add: is_double_def round_double_def)
  then have "(if 2 ^ 1024 \<le> real_of_int ?m * u then PosInf
      else Finite (real_of_int ?m * u)) = Finite x"
    unfolding round_pos_def Let_def e u_def .
  then have "real_of_int ?m * u = x"
    by (simp only: split: if_splits) simp_all
  with m01 assms(2) small show False by auto
qed

subsection \<open>Conversion and multiplication\<close>

lemma float_of_int_exact:
  assumes "\<bar>n\<bar> < 2 ^ 53"
  shows "float_of_int n = Inr (Finite (of_int n))"
  by (simp add: float_of_int_def round_double_of_int [OF assms])

lemma fmul_exact:
  assumes "is_double (a * b)"
  shows "fmul (Finite a) (Finite b) = Finite (a * b)"
  using assms by (simp add: is_double_def)

lemma is_double_of_int:
  assumes "\<bar>n\<bar> < 2 ^ 53"
  shows "is_double (of_int n)"
  unfolding is_double_def using assms by (rule round_double_of_int)

text \<open>A positive integer converts to a double that is at least 1, if it converts.\<close>

lemma float_of_int_ge_one:
  assumes "1 \<le> n" and "float_of_int n = Inr c"
  obtains a where "c = Finite a" and "1 \<le> a"
proof -
  from assms(1) have x: "1 \<le> real_of_int n" by simp
  then have r: "round_double (of_int n) = round_pos (of_int n)"
    by (simp add: round_double_def)
  from round_pos_ge_one [OF x] show ?thesis
  proof
    assume "round_pos (real_of_int n) = PosInf"
    with r assms(2) show ?thesis by (simp add: float_of_int_def)
  next
    assume "\<exists>v. round_pos (real_of_int n) = Finite v \<and> 1 \<le> v"
    then obtain v where v: "round_pos (real_of_int n) = Finite v" and v1: "1 \<le> v" by blast
    from r v have "float_of_int n = Inr (Finite v)" by (simp add: float_of_int_def)
    with assms(2) have "c = Finite v" by simp
    then show ?thesis using v1 by (rule that)
  qed
qed

text \<open>
  The product of a double that is at least 1 with a positive float is positive or
  infinite.
\<close>

lemma fmul_positive:
  assumes "1 \<le> a" and "is_pyfloat f" and "float_gt_zero f"
  shows "fmul (Finite a) f = PosInf \<or> (\<exists>v. fmul (Finite a) f = Finite v \<and> 0 < v)"
proof (cases f)
  case (Finite x)
  with assms have x: "0 < x" and d: "is_double x" by simp_all
  from d x have "2 powi (- 1074) \<le> x" by (rule is_double_min)
  also have "x \<le> a * x" using assms(1) x by simp
  finally have big: "2 powi (- 1074) \<le> a * x" .
  have a: "0 < a" using assms(1) by simp
  have "round_double (a * x) = round_pos (a * x)"
    using a x by (simp add: round_double_def zero_less_mult_iff)
  with round_pos_positive [OF big] Finite show ?thesis by simp
next
  case PosInf
  with assms(1) show ?thesis by simp
next
  case NegInf
  with assms(3) show ?thesis by simp
next
  case NaN
  with assms(3) show ?thesis by simp
qed

text \<open>How a rounding is evaluated on a numeral.\<close>

lemmas round_double_eval =
  round_double_def round_pos_def binade_def compute_bitlen round_half_even_def Let_def

text \<open>
  Roundings at the edges of the format: a tie above \<open>2 ^ 53\<close> in both directions, the
  tie between zero and the smallest positive double, and the two sides of the threshold
  of overflow.
\<close>

lemma round_double_examples:
  "round_double 0.1 = Finite (3602879701896397 / 36028797018963968)"
  "round_double (2 ^ 53 + 1) = Finite (2 ^ 53)"
  "round_double (2 ^ 53 + 3) = Finite (2 ^ 53 + 4)"
  "round_double (1 / 2 ^ 1075) = Finite 0"
  "round_double (3 / 2 ^ 1075) = Finite (1 / 2 ^ 1073)"
  "round_double (2 ^ 1024 - 2 ^ 970 - 1) = Finite (2 ^ 1024 - 2 ^ 971)"
  "round_double (2 ^ 1024 - 2 ^ 970) = PosInf"
  "round_double (- (10 ^ 309)) = NegInf"
  by (simp_all add: round_double_eval)

lemma float_gt_zero_iff:
  "float_gt_zero f \<longleftrightarrow> f \<noteq> NaN \<and> \<not> float_le_zero f"
  by (cases f) auto

lemma calculate_flops_double_guard:
  assumes "n \<le> 0 \<or> float_le_zero f"
  shows "calculate_flops_double u n f = Inr (Finite 0)"
  using assms by (simp add: calculate_flops_double_def)

lemma calculate_flops_double_product:
  assumes "\<not> (n \<le> 0 \<or> float_le_zero f)"
  shows "calculate_flops_double u n f
    = int_times_float (instances u * prod_list (shape u) * ops_per_element u * n) f"
  using assms by (simp add: calculate_flops_double_def)

text \<open>
  Where the two models agree: when the integer factor is below \<open>2 ^ 53\<close> and the product
  is a double, \<open>calculate_flops_double\<close> returns what \<open>calculate_flops\<close> returns.
\<close>

lemma calculate_flops_double_exact:
  assumes "\<bar>instances u * prod_list (shape u) * ops_per_element u * n\<bar> < 2 ^ 53"
    and "is_double (calculate_flops u n x)"
  shows "calculate_flops_double u n (Finite x) = Inr (Finite (calculate_flops u n x))"
proof (cases "n \<le> 0 \<or> x \<le> 0")
  case True
  then show ?thesis
    by (auto simp: calculate_flops_double_def calculate_flops_def)
next
  case False
  let ?I = "instances u * prod_list (shape u) * ops_per_element u * n"
  from False have c: "calculate_flops u n x = real_of_int ?I * x"
    by (simp add: calculate_flops_def)
  from False have "calculate_flops_double u n (Finite x) = int_times_float ?I (Finite x)"
    by (intro calculate_flops_double_product) simp
  also have "\<dots> = Inr (fmul (Finite (real_of_int ?I)) (Finite x))"
    by (simp only: int_times_float_def float_of_int_exact [OF assms(1)] sum.case)
  also have "fmul (Finite (real_of_int ?I)) (Finite x) = Finite (real_of_int ?I * x)"
    using assms(2) unfolding c by (rule fmul_exact)
  finally show ?thesis by (simp only: c)
qed

subsection \<open>calculate_flops in double precision\<close>

text \<open>
  C3, as the code has it. \<^verbatim>\<open>calculate_flops(sm_count, freq_hz)\<close> returns 0.0 when
  \<open>sm_count \<le> 0\<close> or \<open>freq_hz \<le> 0\<close>. Otherwise it converts the integer
  \<open>instances * product of the shape * ops_per_element * sm_count\<close> to a double
  (correctly rounded, \<^verbatim>\<open>OverflowError\<close> when the integer is too large) and returns the
  double product of that double and \<open>freq_hz\<close>. When the integer is below \<open>2 ^ 53\<close> in
  magnitude the conversion is exact, and the result is the exact product of the integer
  and \<open>freq_hz\<close> whenever that product is a double.
\<close>

theorem calculate_flops_double_formula:
  "calculate_flops_double u n f =
     (if n \<le> 0 \<or> float_le_zero f then Inr (Finite 0)
      else case float_of_int (instances u * prod_list (shape u) * ops_per_element u * n) of
             Inl e \<Rightarrow> Inl e
           | Inr c \<Rightarrow> Inr (fmul c f))
   \<and> (\<bar>instances u * prod_list (shape u) * ops_per_element u * n\<bar> < 2 ^ 53
        \<longrightarrow> float_of_int (instances u * prod_list (shape u) * ops_per_element u * n)
              = Inr (Finite (real_of_int
                  (instances u * prod_list (shape u) * ops_per_element u * n))))
   \<and> (\<forall>x. \<bar>instances u * prod_list (shape u) * ops_per_element u * n\<bar> < 2 ^ 53
            \<and> f = Finite x \<and> 0 < n \<and> 0 < x
            \<and> is_double (real_of_int
                  (instances u * prod_list (shape u) * ops_per_element u * n) * x)
          \<longrightarrow> calculate_flops_double u n f =
                Inr (Finite (real_of_int
                  (instances u * prod_list (shape u) * ops_per_element u * n) * x)))"
proof -
  let ?I = "instances u * prod_list (shape u) * ops_per_element u * n"
  have main: "calculate_flops_double u n f =
      (if n \<le> 0 \<or> float_le_zero f then Inr (Finite 0)
       else case float_of_int ?I of Inl e \<Rightarrow> Inl e | Inr c \<Rightarrow> Inr (fmul c f))"
  proof (cases "n \<le> 0 \<or> float_le_zero f")
    case True
    then show ?thesis by (simp add: calculate_flops_double_guard)
  next
    case False
    then have "calculate_flops_double u n f = int_times_float ?I f"
      by (rule calculate_flops_double_product)
    with False show ?thesis by (simp add: int_times_float_def)
  qed
  have conv: "float_of_int ?I = Inr (Finite (real_of_int ?I))" if "\<bar>?I\<bar> < 2 ^ 53"
    using that by (rule float_of_int_exact)
  have exact: "calculate_flops_double u n f = Inr (Finite (real_of_int ?I * x))"
    if "\<bar>?I\<bar> < 2 ^ 53" "f = Finite x" "0 < n" "0 < x" "is_double (real_of_int ?I * x)"
    for x
    using that main conv by (simp add: is_double_def)
  from main conv exact show ?thesis by blast
qed

theorem calculate_flops_double_formula_witness:
  "\<bar>instances \<lparr> unit_type = ''tensor'', dtype = ''fp16'', instances = 4,
         shape = [8, 4, 16], ops_per_element = 2 \<rparr>
      * prod_list (shape \<lparr> unit_type = ''tensor'', dtype = ''fp16'', instances = 4,
         shape = [8, 4, 16], ops_per_element = 2 \<rparr>)
      * ops_per_element \<lparr> unit_type = ''tensor'', dtype = ''fp16'', instances = 4,
         shape = [8, 4, 16], ops_per_element = 2 \<rparr> * 132\<bar> < 2 ^ 53
   \<and> is_double 989429760000000
   \<and> float_of_int 540672 = Inr (Finite 540672)
   \<and> calculate_flops_double
       \<lparr> unit_type = ''tensor'', dtype = ''fp16'', instances = 4,
         shape = [8, 4, 16], ops_per_element = 2 \<rparr> 132 (Finite 1830000000)
       = Inr (Finite 989429760000000)"
proof -
  let ?u = "\<lparr> unit_type = ''tensor'', dtype = ''fp16'', instances = 4,
         shape = [8, 4, 16], ops_per_element = 2 \<rparr>"
  have small: "\<bar>instances ?u * prod_list (shape ?u) * ops_per_element ?u * 132\<bar> < 2 ^ 53"
    by simp
  have d: "is_double 989429760000000"
    using is_double_of_int [of 989429760000000] by simp
  note inst = calculate_flops_double_formula [of ?u 132 "Finite 1830000000"]
  from inst [THEN conjunct2, THEN conjunct1] small
  have conv: "float_of_int 540672 = Inr (Finite 540672)"
    by simp
  have "calculate_flops_double ?u 132 (Finite 1830000000)
      = Inr (Finite (real_of_int (instances ?u * prod_list (shape ?u) * ops_per_element ?u * 132)
          * 1830000000))"
    by (rule inst [THEN conjunct2, THEN conjunct2, THEN spec, THEN mp]) (simp add: d)
  then have "calculate_flops_double ?u 132 (Finite 1830000000)
      = Inr (Finite 989429760000000)"
    by simp
  with small d conv show ?thesis by simp
qed

text \<open>
  The claim C3 as the specification states it fails on the code. With
  \<open>instances = 3\<close>, \<open>ops_per_element = 1\<close>, the empty shape, \<open>sm_count = 1\<close> and
  \<open>freq_hz = 0.1\<close>, the result is the double \<^verbatim>\<open>0.30000000000000004\<close>, which is not three
  times the double \<^verbatim>\<open>0.1\<close>. With \<open>instances = 10 ^ 309\<close> the call does not return: the
  conversion of the integer raises \<^verbatim>\<open>OverflowError\<close>.
\<close>

theorem calculate_flops_double_formula_counterexample:
  "round_double 0.1 = Finite (3602879701896397 / 36028797018963968)
   \<and> calculate_flops_double
       \<lparr> unit_type = ''vector'', dtype = ''fp32'', instances = 3, shape = [],
         ops_per_element = 1 \<rparr> 1 (round_double 0.1)
       = Inr (Finite (1351079888211149 / 4503599627370496))
   \<and> (1351079888211149 / 4503599627370496 :: real)
       \<noteq> 3 * 1 * 1 * 1 * (3602879701896397 / 36028797018963968)
   \<and> calculate_flops_double
       \<lparr> unit_type = ''vector'', dtype = ''fp32'', instances = 10 ^ 309, shape = [],
         ops_per_element = 1 \<rparr> 1 (Finite 1)
       = Inl (OverflowError ''int too large to convert to float'')"
  by (simp add: calculate_flops_double_def int_times_float_def float_of_int_def
      round_double_eval)

text \<open>
  C4, as the code has it. For a unit with \<open>instances \<ge> 1\<close>, \<open>ops_per_element \<ge> 1\<close> and
  positive shape entries, and for a \<open>freq_hz\<close> that is a float other than \<^verbatim>\<open>nan\<close>:
  when \<open>sm_count \<le> 0\<close> or \<open>freq_hz \<le> 0\<close> or the integer factor converts to a float,
  \<^verbatim>\<open>calculate_flops\<close> returns a float \<open>\<ge> 0\<close> (possibly \<^verbatim>\<open>inf\<close>), which is zero exactly
  when \<open>sm_count \<le> 0\<close> or \<open>freq_hz \<le> 0\<close>; when the conversion raises, so does the call.
\<close>

theorem calculate_flops_double_sign:
  assumes "unit_invariant u" and "is_pyfloat f" and "f \<noteq> NaN"
  shows "(n \<le> 0 \<or> float_le_zero f
          \<or> (\<exists>c. float_of_int (instances u * prod_list (shape u) * ops_per_element u * n)
                 = Inr c)
          \<longrightarrow> (\<exists>r. calculate_flops_double u n f = Inr r \<and> float_ge_zero r
                 \<and> (r = Finite 0 \<longleftrightarrow> n \<le> 0 \<or> float_le_zero f)))
         \<and> (\<forall>e. 0 < n \<and> \<not> float_le_zero f
                \<and> float_of_int (instances u * prod_list (shape u) * ops_per_element u * n)
                     = Inl e
              \<longrightarrow> calculate_flops_double u n f = Inl e)"
proof -
  let ?I = "instances u * prod_list (shape u) * ops_per_element u * n"
  have returns: "\<exists>r. calculate_flops_double u n f = Inr r \<and> float_ge_zero r
      \<and> (r = Finite 0 \<longleftrightarrow> n \<le> 0 \<or> float_le_zero f)"
    if h: "n \<le> 0 \<or> float_le_zero f \<or> (\<exists>c. float_of_int ?I = Inr c)"
  proof (cases "n \<le> 0 \<or> float_le_zero f")
    case True
    then show ?thesis by (simp add: calculate_flops_double_guard)
  next
    case False
    from False h obtain c where c: "float_of_int ?I = Inr c" by blast
    from False assms(3) have pos: "float_gt_zero f" by (simp add: float_gt_zero_iff)
    from assms(1) have "0 < instances u" and "0 < ops_per_element u"
      and "0 < prod_list (shape u)"
      by (auto simp: unit_invariant_def intro: prod_list_pos)
    moreover from False have "0 < n" by simp
    ultimately have "0 < ?I" by simp
    then have "1 \<le> ?I" by simp
    from this c obtain a where a: "c = Finite a" and a1: "1 \<le> a"
      by (rule float_of_int_ge_one)
    from False have "calculate_flops_double u n f = int_times_float ?I f"
      by (rule calculate_flops_double_product)
    with c a have res: "calculate_flops_double u n f = Inr (fmul (Finite a) f)"
      by (simp add: int_times_float_def)
    from fmul_positive [OF a1 assms(2) pos] show ?thesis
    proof
      assume "fmul (Finite a) f = PosInf"
      with res False show ?thesis by simp
    next
      assume "\<exists>v. fmul (Finite a) f = Finite v \<and> 0 < v"
      then obtain v where "fmul (Finite a) f = Finite v" and "0 < v" by blast
      with res False show ?thesis by simp
    qed
  qed
  have raises: "calculate_flops_double u n f = Inl e"
    if "0 < n" "\<not> float_le_zero f" "float_of_int ?I = Inl e" for e
  proof -
    from that(1,2) have "calculate_flops_double u n f = int_times_float ?I f"
      by (intro calculate_flops_double_product) simp
    with that(3) show ?thesis by (simp add: int_times_float_def)
  qed
  from returns raises show ?thesis by blast
qed

theorem calculate_flops_double_sign_witness:
  "unit_invariant \<lparr> unit_type = ''tensor'', dtype = ''fp16'', instances = 4,
       shape = [8, 4, 16], ops_per_element = 2 \<rparr>
   \<and> is_pyfloat (Finite 1830000000)
   \<and> float_of_int 540672 = Inr (Finite 540672)
   \<and> (\<exists>r. calculate_flops_double \<lparr> unit_type = ''tensor'', dtype = ''fp16'',
          instances = 4, shape = [8, 4, 16], ops_per_element = 2 \<rparr> 132 (Finite 1830000000)
          = Inr r \<and> float_ge_zero r \<and> r \<noteq> Finite 0)"
proof -
  let ?u = "\<lparr> unit_type = ''tensor'', dtype = ''fp16'', instances = 4,
       shape = [8, 4, 16], ops_per_element = 2 \<rparr>"
  have inv: "unit_invariant ?u" by (simp add: unit_invariant_def)
  have fl: "is_pyfloat (Finite 1830000000)"
    using is_double_of_int [of 1830000000] by simp
  have conv: "float_of_int 540672 = Inr (Finite 540672)"
    using float_of_int_exact [of 540672] by simp
  have nn: "Finite 1830000000 \<noteq> NaN" by simp
  from calculate_flops_double_sign [OF inv fl nn, of 132] conv
  have "\<exists>r. calculate_flops_double ?u 132 (Finite 1830000000) = Inr r
      \<and> float_ge_zero r \<and> r \<noteq> Finite 0"
    by simp
  with inv fl conv show ?thesis by simp
qed

text \<open>
  The claim C4 as the specification states it fails on the code. A unit with
  \<open>instances = 10 ^ 309\<close> satisfies the invariant, and the call raises
  \<^verbatim>\<open>OverflowError\<close> instead of returning a float. For \<open>freq_hz\<close> the float \<^verbatim>\<open>nan\<close>
  the guard \<^verbatim>\<open>freq_hz <= 0\<close> is false and the result is \<^verbatim>\<open>nan\<close>, which is neither
  zero nor positive.
\<close>

theorem calculate_flops_double_sign_counterexample:
  "unit_invariant \<lparr> unit_type = ''vector'', dtype = ''fp32'', instances = 10 ^ 309,
       shape = [], ops_per_element = 1 \<rparr>
   \<and> calculate_flops_double \<lparr> unit_type = ''vector'', dtype = ''fp32'',
         instances = 10 ^ 309, shape = [], ops_per_element = 1 \<rparr> 1 (Finite 1)
       = Inl (OverflowError ''int too large to convert to float'')
   \<and> unit_invariant \<lparr> unit_type = ''vector'', dtype = ''fp32'', instances = 1,
       shape = [], ops_per_element = 1 \<rparr>
   \<and> calculate_flops_double \<lparr> unit_type = ''vector'', dtype = ''fp32'',
         instances = 1, shape = [], ops_per_element = 1 \<rparr> 1 NaN = Inr NaN
   \<and> \<not> float_ge_zero NaN"
  by (simp add: unit_invariant_def calculate_flops_double_def int_times_float_def
      float_of_int_def round_double_eval)

text \<open>
  The unit with \<open>instances = 4\<close>, \<open>ops_per_element = 2\<close> and the empty shape at
  \<open>sm_count = 114\<close>, \<open>freq_hz = 1.755e9\<close> in double precision: no operation rounds.
\<close>

lemma calculate_flops_double_example:
  "calculate_flops_double
     \<lparr> unit_type = t, dtype = d, instances = 4, shape = [], ops_per_element = 2 \<rparr>
     114 (Finite 1755000000) = Inr (Finite 1600560000000)"
  using float_of_int_exact [of 912] round_double_of_int [of 1600560000000]
  by (simp add: calculate_flops_double_def int_times_float_def)

subsection \<open>compute_bandwidth in double precision\<close>

lemma float_of_int_32_4:
  "float_of_int 32 = Inr (Finite 32)" "float_of_int 4 = Inr (Finite 4)"
  using float_of_int_exact [of 32] float_of_int_exact [of 4] by simp_all

lemma float_of_int_Inr:
  assumes "float_of_int n = Inr c"
  shows "c = round_double (of_int n)"
  using assms by (simp add: float_of_int_def split: pyfloat.splits)

lemma int_times_float_Inr:
  assumes "int_times_float n f = Inr p"
  shows "p = fmul (round_double (of_int n)) f"
proof (cases "float_of_int n")
  case (Inl e)
  with assms show ?thesis by (simp add: int_times_float_def)
next
  case (Inr c)
  with assms float_of_int_Inr [OF Inr] show ?thesis by (simp add: int_times_float_def)
qed

lemma float_times_int_Inr:
  assumes "float_times_int f n = Inr p"
  shows "p = fmul f (round_double (of_int n))"
proof (cases "float_of_int n")
  case (Inl e)
  with assms show ?thesis by (simp add: float_times_int_def)
next
  case (Inr c)
  with assms float_of_int_Inr [OF Inr] show ?thesis by (simp add: float_times_int_def)
qed

lemma and_then_Inr:
  assumes "and_then r k = Inr v"
  obtains w where "r = Inr w" and "k w = Inr v"
  using assms by (cases r) (simp_all add: and_then_def)

lemma round_double_32_4:
  "round_double 32 = Finite 32" "round_double 4 = Finite 4"
  using round_double_of_int [of 32] round_double_of_int [of 4] by simp_all

text \<open>The two values that the pass assigns, when it computes them.\<close>

lemma smem_product_Inr:
  assumes "and_then (int_times_float n f) (\<lambda>p. float_times_int p l) = Inr v"
  shows "v = fmul (fmul (round_double (of_int n)) f) (round_double (of_int l))"
proof -
  from assms obtain p where p: "int_times_float n f = Inr p"
    and v: "float_times_int p l = Inr v"
    by (rule and_then_Inr)
  from int_times_float_Inr [OF p] float_times_int_Inr [OF v] show ?thesis by simp
qed

lemma register_product_Inr:
  assumes "and_then (int_times_float n f)
      (\<lambda>p. and_then (float_times_int p k)
         (\<lambda>q. and_then (float_times_int q 32) (\<lambda>r. float_times_int r 4))) = Inr v"
  shows "v = fmul (fmul (fmul (fmul (round_double (of_int n)) f) (round_double (of_int k)))
      (Finite 32)) (Finite 4)"
proof -
  from assms obtain p where p: "int_times_float n f = Inr p"
    and 1: "and_then (float_times_int p k)
         (\<lambda>q. and_then (float_times_int q 32) (\<lambda>r. float_times_int r 4)) = Inr v"
    by (rule and_then_Inr)
  from 1 obtain q where q: "float_times_int p k = Inr q"
    and 2: "and_then (float_times_int q 32) (\<lambda>r. float_times_int r 4) = Inr v"
    by (rule and_then_Inr)
  from 2 obtain r where r: "float_times_int q 32 = Inr r" and v: "float_times_int r 4 = Inr v"
    by (rule and_then_Inr)
  from int_times_float_Inr [OF p] float_times_int_Inr [OF q] float_times_int_Inr [OF r]
    float_times_int_Inr [OF v]
  show ?thesis by (simp add: round_double_32_4)
qed

text \<open>
  C5, as the code has it. When \<^verbatim>\<open>compute_bandwidth\<close> returns, \<open>smem_bandwidth\<close> is the
  double product \<open>(sm_count * freq) * l1_smem_throughput_per_cycle\<close> when the three
  factors are positive and 0.0 otherwise, and \<open>register_bandwidth\<close> is the double product
  \<open>(((sm_count * freq) * sm_sub_partitions) * 32) * 4\<close> when the three factors are
  positive and 0.0 otherwise: each integer is converted to the nearest double and each
  multiplication rounds to the nearest double. \<open>ddr_bandwidth\<close> and \<open>l2_bandwidth\<close> are
  as they were. The pass returns when the three integers are below \<open>2 ^ 53\<close> in
  magnitude, and then their conversions are exact.
\<close>

theorem compute_bandwidth_double_formula:
  "(\<forall>s'. compute_bandwidth_double s = Inr s' \<longrightarrow>
       smem_bandwidth s' =
         (if 0 < sm_count s \<and> float_gt_zero (freq s) \<and> 0 < l1_smem_throughput_per_cycle s
          then fmul (fmul (round_double (real_of_int (sm_count s))) (freq s))
                 (round_double (real_of_int (l1_smem_throughput_per_cycle s)))
          else Finite 0)
     \<and> register_bandwidth s' =
         (if 0 < sm_count s \<and> float_gt_zero (freq s) \<and> 0 < sm_sub_partitions s
          then fmul (fmul (fmul (fmul (round_double (real_of_int (sm_count s))) (freq s))
                 (round_double (real_of_int (sm_sub_partitions s)))) (Finite 32)) (Finite 4)
          else Finite 0)
     \<and> ddr_bandwidth s' = ddr_bandwidth s
     \<and> l2_bandwidth s' = l2_bandwidth s)
   \<and> (\<bar>sm_count s\<bar> < 2 ^ 53 \<and> \<bar>l1_smem_throughput_per_cycle s\<bar> < 2 ^ 53
        \<and> \<bar>sm_sub_partitions s\<bar> < 2 ^ 53
      \<longrightarrow> (\<exists>s'. compute_bandwidth_double s = Inr s')
          \<and> round_double (real_of_int (sm_count s)) = Finite (real_of_int (sm_count s))
          \<and> round_double (real_of_int (l1_smem_throughput_per_cycle s))
              = Finite (real_of_int (l1_smem_throughput_per_cycle s))
          \<and> round_double (real_of_int (sm_sub_partitions s))
              = Finite (real_of_int (sm_sub_partitions s)))"
proof -
  let ?g1 = "0 < sm_count s \<and> float_gt_zero (freq s) \<and> 0 < l1_smem_throughput_per_cycle s"
  let ?g2 = "0 < sm_count s \<and> float_gt_zero (freq s) \<and> 0 < sm_sub_partitions s"
  let ?e1 = "if ?g1
      then and_then (int_times_float (sm_count s) (freq s))
             (\<lambda>p. float_times_int p (l1_smem_throughput_per_cycle s))
      else Inr (Finite 0)"
  let ?e2 = "if ?g2
      then and_then (int_times_float (sm_count s) (freq s))
             (\<lambda>p. and_then (float_times_int p (sm_sub_partitions s))
                (\<lambda>q. and_then (float_times_int q 32) (\<lambda>r. float_times_int r 4)))
      else Inr (Finite 0)"
  have unf: "compute_bandwidth_double s =
      and_then ?e1 (\<lambda>smem. and_then ?e2
        (\<lambda>reg. Inr (s\<lparr> smem_bandwidth := smem, register_bandwidth := reg \<rparr>)))"
    by (simp only: compute_bandwidth_double_def)
  have vals: "smem_bandwidth s' =
         (if ?g1
          then fmul (fmul (round_double (real_of_int (sm_count s))) (freq s))
                 (round_double (real_of_int (l1_smem_throughput_per_cycle s)))
          else Finite 0)
     \<and> register_bandwidth s' =
         (if ?g2
          then fmul (fmul (fmul (fmul (round_double (real_of_int (sm_count s))) (freq s))
                 (round_double (real_of_int (sm_sub_partitions s)))) (Finite 32)) (Finite 4)
          else Finite 0)
     \<and> ddr_bandwidth s' = ddr_bandwidth s
     \<and> l2_bandwidth s' = l2_bandwidth s"
    if ret: "compute_bandwidth_double s = Inr s'" for s'
  proof -
    from ret unf obtain smem where smem: "?e1 = Inr smem"
      and rest: "and_then ?e2
        (\<lambda>reg. Inr (s\<lparr> smem_bandwidth := smem, register_bandwidth := reg \<rparr>)) = Inr s'"
      by (auto elim: and_then_Inr)
    from rest obtain reg where reg: "?e2 = Inr reg"
      and s': "Inr (s\<lparr> smem_bandwidth := smem, register_bandwidth := reg \<rparr>)
          = (Inr s' :: error + Arch_double)"
      by (auto elim: and_then_Inr)
    have v1: "smem = (if ?g1
          then fmul (fmul (round_double (real_of_int (sm_count s))) (freq s))
                 (round_double (real_of_int (l1_smem_throughput_per_cycle s)))
          else Finite 0)"
    proof (cases ?g1)
      case True
      with smem have "and_then (int_times_float (sm_count s) (freq s))
             (\<lambda>p. float_times_int p (l1_smem_throughput_per_cycle s)) = Inr smem"
        by simp
      from smem_product_Inr [OF this] True show ?thesis by simp
    next
      case False
      with smem show ?thesis by auto
    qed
    have v2: "reg = (if ?g2
          then fmul (fmul (fmul (fmul (round_double (real_of_int (sm_count s))) (freq s))
                 (round_double (real_of_int (sm_sub_partitions s)))) (Finite 32)) (Finite 4)
          else Finite 0)"
    proof (cases ?g2)
      case True
      with reg have "and_then (int_times_float (sm_count s) (freq s))
             (\<lambda>p. and_then (float_times_int p (sm_sub_partitions s))
                (\<lambda>q. and_then (float_times_int q 32) (\<lambda>r. float_times_int r 4)))
           = Inr reg"
        by simp
      from register_product_Inr [OF this] True show ?thesis by simp
    next
      case False
      with reg show ?thesis by auto
    qed
    from s' have "s' = s\<lparr> smem_bandwidth := smem, register_bandwidth := reg \<rparr>" by simp
    then have "smem_bandwidth s' = smem" and "register_bandwidth s' = reg"
      and "ddr_bandwidth s' = ddr_bandwidth s" and "l2_bandwidth s' = l2_bandwidth s"
      by simp_all
    with v1 v2 show ?thesis by (simp only:)
  qed
  have returns: "(\<exists>s'. compute_bandwidth_double s = Inr s')
      \<and> round_double (real_of_int (sm_count s)) = Finite (real_of_int (sm_count s))
      \<and> round_double (real_of_int (l1_smem_throughput_per_cycle s))
          = Finite (real_of_int (l1_smem_throughput_per_cycle s))
      \<and> round_double (real_of_int (sm_sub_partitions s))
          = Finite (real_of_int (sm_sub_partitions s))"
    if a: "\<bar>sm_count s\<bar> < 2 ^ 53" and b: "\<bar>l1_smem_throughput_per_cycle s\<bar> < 2 ^ 53"
      and c: "\<bar>sm_sub_partitions s\<bar> < 2 ^ 53"
  proof -
    have "\<exists>s'. compute_bandwidth_double s = Inr s'"
      by (simp add: compute_bandwidth_double_def and_then_def int_times_float_def
          float_times_int_def float_of_int_exact [OF a] float_of_int_exact [OF b]
          float_of_int_exact [OF c] float_of_int_32_4)
    with round_double_of_int [OF a] round_double_of_int [OF b] round_double_of_int [OF c]
    show ?thesis by simp
  qed
  from vals returns show ?thesis by blast
qed

text \<open>
  The numbers of \<^verbatim>\<open>H100_PCIE\<close>: \<open>sm_count = 114\<close>, \<open>freq = 1.755e9\<close>,
  \<open>l1_smem_throughput_per_cycle = 128\<close>, \<open>sm_sub_partitions = 4\<close>. No multiplication
  rounds, and the two fields hold the exact products.
\<close>

theorem compute_bandwidth_double_formula_witness:
  "\<bar>sm_count (Arch_init_double\<lparr> sm_count := 114, freq := Finite 1755000000,
        l1_smem_throughput_per_cycle := 128, sm_sub_partitions := 4 \<rparr>)\<bar> < 2 ^ 53
   \<and> (\<exists>s'. compute_bandwidth_double
          (Arch_init_double\<lparr> sm_count := 114, freq := Finite 1755000000,
             l1_smem_throughput_per_cycle := 128, sm_sub_partitions := 4 \<rparr>) = Inr s'
        \<and> smem_bandwidth s' = Finite 25608960000000
        \<and> register_bandwidth s' = Finite 102435840000000
        \<and> ddr_bandwidth s' = Finite 0 \<and> l2_bandwidth s' = Finite 0)"
proof -
  let ?s = "Arch_init_double\<lparr> sm_count := 114, freq := Finite 1755000000,
        l1_smem_throughput_per_cycle := 128, sm_sub_partitions := 4 \<rparr>"
  have a: "\<bar>sm_count ?s\<bar> < 2 ^ 53" by simp
  have b: "\<bar>l1_smem_throughput_per_cycle ?s\<bar> < 2 ^ 53" by simp
  have c: "\<bar>sm_sub_partitions ?s\<bar> < 2 ^ 53" by simp
  have d: "round_double 114 = Finite 114" "round_double 128 = Finite 128"
    "round_double 200070000000 = Finite 200070000000"
    "round_double 800280000000 = Finite 800280000000"
    "round_double 25608960000000 = Finite 25608960000000"
    "round_double 102435840000000 = Finite 102435840000000"
    using round_double_of_int [of 114] round_double_of_int [of 128]
      round_double_of_int [of 200070000000]
      round_double_of_int [of 800280000000] round_double_of_int [of 25608960000000]
      round_double_of_int [of 102435840000000]
    by simp_all
  note inst = compute_bandwidth_double_formula [of ?s]
  from inst a b c obtain s' where ret: "compute_bandwidth_double ?s = Inr s'" by blast
  with inst have "smem_bandwidth s' = Finite 25608960000000
      \<and> register_bandwidth s' = Finite 102435840000000
      \<and> ddr_bandwidth s' = Finite 0 \<and> l2_bandwidth s' = Finite 0"
    by (simp add: Arch_init_double_def d round_double_32_4)
  with ret a show ?thesis by blast
qed

text \<open>
  The claim C5 as the specification states it fails on the code. With \<open>sm_count = 3\<close>,
  \<open>freq = 0.1\<close>, \<open>l1_smem_throughput_per_cycle = 3\<close> and \<open>sm_sub_partitions = 1\<close> the
  pass leaves the doubles \<^verbatim>\<open>0.9000000000000001\<close> and \<^verbatim>\<open>38.400000000000006\<close> in the two
  fields, which are not the products of the factors: nine times, and 384 times, the
  double \<^verbatim>\<open>0.1\<close>.
\<close>

theorem compute_bandwidth_double_formula_counterexample:
  "round_double 0.1 = Finite (3602879701896397 / 36028797018963968)
   \<and> compute_bandwidth_double
       (Arch_init_double\<lparr> sm_count := 3, freq := round_double 0.1,
          l1_smem_throughput_per_cycle := 3, sm_sub_partitions := 1 \<rparr>)
     = Inr (Arch_init_double\<lparr> sm_count := 3, freq := round_double 0.1,
          l1_smem_throughput_per_cycle := 3, sm_sub_partitions := 1,
          smem_bandwidth := Finite (4053239664633447 / 4503599627370496),
          register_bandwidth := Finite (1351079888211149 / 35184372088832) \<rparr>)
   \<and> (4053239664633447 / 4503599627370496 :: real)
       \<noteq> 3 * (3602879701896397 / 36028797018963968) * 3
   \<and> (1351079888211149 / 35184372088832 :: real)
       \<noteq> 3 * (3602879701896397 / 36028797018963968) * 1 * 32 * 4"
  by (simp add: compute_bandwidth_double_def and_then_def int_times_float_def
      float_times_int_def float_of_int_def Arch_init_double_def round_double_eval)

end
